theory Spec2Isabelle
  imports Complex_Main
begin

text \<open>
  A model of the lip-track calculator of \<^verbatim>\<open>lip_track_calculator.cc\<close>: the geometry
  helpers, the lip statistic, the face association, the active-speaker classifier, the
  evaluation of a window of buffered frames and the debounced shot-boundary signal. Each
  function of the calculator is a function of the same name here; members and locals that
  the source mutates are passed in and returned. The drawing of the visualization frames is
  left out.
\<close>

section \<open>Single-precision values\<close>

text \<open>
  The calculator computes in C++ \<^verbatim>\<open>float\<close>. A value is modelled as a real number or one
  of the three non-finite values of IEEE 754. Rounding, overflow and the sign of zero are
  not modelled: a finite result is the exact real result. Division by zero and the
  comparisons with NaN, which the source relies on implicitly, are modelled.
\<close>

datatype float = Fin real | PInf | NInf | NaN

fun fneg :: "float \<Rightarrow> float" where
  "fneg (Fin a) = Fin (- a)"
| "fneg PInf = NInf"
| "fneg NInf = PInf"
| "fneg NaN = NaN"

fun fadd :: "float \<Rightarrow> float \<Rightarrow> float" where
  "fadd (Fin a) (Fin b) = Fin (a + b)"
| "fadd NaN _ = NaN"
| "fadd _ NaN = NaN"
| "fadd PInf NInf = NaN"
| "fadd NInf PInf = NaN"
| "fadd PInf _ = PInf"
| "fadd _ PInf = PInf"
| "fadd NInf _ = NInf"
| "fadd _ NInf = NInf"

definition fsub :: "float \<Rightarrow> float \<Rightarrow> float" where
  "fsub a b = fadd a (fneg b)"

text \<open>The sign of an infinite product or quotient: \<open>True\<close> is positive.\<close>

definition finf :: "bool \<Rightarrow> float" where
  "finf pos = (if pos then PInf else NInf)"

fun fmul :: "float \<Rightarrow> float \<Rightarrow> float" where
  "fmul (Fin a) (Fin b) = Fin (a * b)"
| "fmul NaN _ = NaN"
| "fmul _ NaN = NaN"
| "fmul PInf (Fin b) = (if b = 0 then NaN else finf (0 < b))"
| "fmul NInf (Fin b) = (if b = 0 then NaN else finf (b < 0))"
| "fmul (Fin a) PInf = (if a = 0 then NaN else finf (0 < a))"
| "fmul (Fin a) NInf = (if a = 0 then NaN else finf (a < 0))"
| "fmul PInf PInf = PInf"
| "fmul NInf NInf = PInf"
| "fmul PInf NInf = NInf"
| "fmul NInf PInf = NInf"

fun fdiv :: "float \<Rightarrow> float \<Rightarrow> float" where
  "fdiv (Fin a) (Fin b) =
     (if b = 0 then (if a = 0 then NaN else finf (0 < a)) else Fin (a / b))"
| "fdiv NaN _ = NaN"
| "fdiv _ NaN = NaN"
| "fdiv (Fin a) PInf = Fin 0"
| "fdiv (Fin a) NInf = Fin 0"
| "fdiv PInf (Fin b) = finf (0 \<le> b)"
| "fdiv NInf (Fin b) = finf (b < 0)"
| "fdiv PInf PInf = NaN"
| "fdiv PInf NInf = NaN"
| "fdiv NInf PInf = NaN"
| "fdiv NInf NInf = NaN"

fun fsqrt :: "float \<Rightarrow> float" where
  "fsqrt (Fin a) = (if a < 0 then NaN else Fin (sqrt a))"
| "fsqrt PInf = PInf"
| "fsqrt NInf = NaN"
| "fsqrt NaN = NaN"

text \<open>\<^verbatim>\<open>std::pow(v, 2)\<close>.\<close>

definition fpow2 :: "float \<Rightarrow> float" where
  "fpow2 a = fmul a a"

text \<open>The comparisons \<^verbatim>\<open><\<close> and \<^verbatim>\<open><=\<close>; every comparison with NaN is false.\<close>

fun fless :: "float \<Rightarrow> float \<Rightarrow> bool" where
  "fless (Fin a) (Fin b) = (a < b)"
| "fless NaN _ = False"
| "fless _ NaN = False"
| "fless NInf NInf = False"
| "fless NInf _ = True"
| "fless PInf _ = False"
| "fless (Fin a) PInf = True"
| "fless (Fin a) NInf = False"

fun fle :: "float \<Rightarrow> float \<Rightarrow> bool" where
  "fle (Fin a) (Fin b) = (a \<le> b)"
| "fle NaN _ = False"
| "fle _ NaN = False"
| "fle NInf _ = True"
| "fle PInf PInf = True"
| "fle PInf _ = False"
| "fle (Fin a) PInf = True"
| "fle (Fin a) NInf = False"

text \<open>\<^verbatim>\<open>std::max(a, b)\<close> is \<^verbatim>\<open>(a < b) ? b : a\<close>, \<^verbatim>\<open>std::min(a, b)\<close> is \<^verbatim>\<open>(b < a) ? b : a\<close>.\<close>

definition fmax :: "float \<Rightarrow> float \<Rightarrow> float" where
  "fmax a b = (if fless a b then b else a)"

definition fmin :: "float \<Rightarrow> float \<Rightarrow> float" where
  "fmin a b = (if fless b a then b else a)"

text \<open>Conversion of a count or of an \<^verbatim>\<open>int\<close> to \<^verbatim>\<open>float\<close>.\<close>

definition float_of_nat :: "nat \<Rightarrow> float" where
  "float_of_nat n = Fin (real n)"

definition float_of_int :: "int \<Rightarrow> float" where
  "float_of_int i = Fin (real_of_int i)"

section \<open>Input data\<close>

text \<open>
  A normalized landmark (the z coordinate is never read), a landmark list, and a detection
  with its relative bounding box.
\<close>

record NormalizedLandmark =
  lm_x :: float
  lm_y :: float

type_synonym NormalizedLandmarkList = "NormalizedLandmark list"

record Detection =
  xmin :: float
  ymin :: float
  width :: float
  height :: float

text \<open>Lip contour landmarks and the size of the face mesh.\<close>

definition kLipLeftInnerCornerIdx :: nat where
  "kLipLeftInnerCornerIdx = 78"

definition kLipRightInnerCornerIdx :: nat where
  "kLipRightInnerCornerIdx = 308"

definition kLipUpperIdx :: "nat list" where
  "kLipUpperIdx = [82, 13, 312]"

definition kLipLowerIdx :: "nat list" where
  "kLipLowerIdx = [87, 14, 317]"

definition kFaceMeshLandmarks :: nat where
  "kFaceMeshLandmarks = 468"

section \<open>Geometry\<close>

text \<open>
  \<^verbatim>\<open>GetDistance\<close>: the Euclidean distance of two landmarks in pixels. The frame's width
  and height are members of the calculator, set from the first video frame.
\<close>

definition GetDistance :: "int \<Rightarrow> int \<Rightarrow> NormalizedLandmark \<Rightarrow> NormalizedLandmark \<Rightarrow> float" where
  "GetDistance frame_width frame_height mark_1 mark_2 =
     fsqrt (fadd (fpow2 (fmul (fsub (lm_x mark_1) (lm_x mark_2)) (float_of_int frame_width)))
                 (fpow2 (fmul (fsub (lm_y mark_1) (lm_y mark_2)) (float_of_int frame_height))))"

text \<open>
  \<^verbatim>\<open>cv::Rect2f\<close> of OpenCV with the operations the calculator calls: \<^verbatim>\<open>area\<close>,
  \<^verbatim>\<open>empty\<close>, the intersection \<^verbatim>\<open>&\<close> and \<^verbatim>\<open>|\<close>, which is the smallest rectangle that
  holds both operands (not their set union). OpenCV is not part of the repository; the
  operations follow its header \<^verbatim>\<open>core/types.hpp\<close>.
\<close>

record Rect2f =
  rect_x :: float
  rect_y :: float
  rect_width :: float
  rect_height :: float

definition Rect_zero :: Rect2f where
  "Rect_zero = \<lparr>rect_x = Fin 0, rect_y = Fin 0, rect_width = Fin 0, rect_height = Fin 0\<rparr>"

definition rect_area :: "Rect2f \<Rightarrow> float" where
  "rect_area r = fmul (rect_width r) (rect_height r)"

definition rect_empty :: "Rect2f \<Rightarrow> bool" where
  "rect_empty r = (fle (rect_width r) (Fin 0) \<or> fle (rect_height r) (Fin 0))"

definition rect_inter :: "Rect2f \<Rightarrow> Rect2f \<Rightarrow> Rect2f" where
  "rect_inter a b =
     (let x1 = fmax (rect_x a) (rect_x b);
          y1 = fmax (rect_y a) (rect_y b);
          w = fsub (fmin (fadd (rect_x a) (rect_width a)) (fadd (rect_x b) (rect_width b))) x1;
          h = fsub (fmin (fadd (rect_y a) (rect_height a)) (fadd (rect_y b) (rect_height b))) y1
      in if fle w (Fin 0) \<or> fle h (Fin 0) then Rect_zero
         else \<lparr>rect_x = x1, rect_y = y1, rect_width = w, rect_height = h\<rparr>)"

definition rect_union :: "Rect2f \<Rightarrow> Rect2f \<Rightarrow> Rect2f" where
  "rect_union a b =
     (if rect_empty a then b
      else if \<not> rect_empty b then
        (let x1 = fmin (rect_x a) (rect_x b);
             y1 = fmin (rect_y a) (rect_y b)
         in \<lparr>rect_x = x1, rect_y = y1,
             rect_width = fsub (fmax (fadd (rect_x a) (rect_width a)) (fadd (rect_x b) (rect_width b))) x1,
             rect_height = fsub (fmax (fadd (rect_y a) (rect_height a)) (fadd (rect_y b) (rect_height b))) y1\<rparr>)
      else a)"

definition DetectionToRect :: "Detection \<Rightarrow> Rect2f" where
  "DetectionToRect bbox =
     \<lparr>rect_x = xmin bbox, rect_y = ymin bbox, rect_width = width bbox, rect_height = height bbox\<rparr>"

text \<open>\<^verbatim>\<open>GetIOU\<close>: the quotient of the two areas, with no test of the divisor.\<close>

definition GetIOU :: "Detection \<Rightarrow> Detection \<Rightarrow> float" where
  "GetIOU bbox_1 bbox_2 =
     (let cv_bbox_1 = DetectionToRect bbox_1;
          cv_bbox_2 = DetectionToRect bbox_2;
          intersecting_region = rect_inter cv_bbox_1 cv_bbox_2;
          union_region = rect_union cv_bbox_1 cv_bbox_2
      in fdiv (rect_area intersecting_region) (rect_area union_region))"

section \<open>Lip statistics\<close>

text \<open>
  \<^verbatim>\<open>GetStatistics\<close>. The two locals \<^verbatim>\<open>mouth_width\<close> and \<^verbatim>\<open>mouth_height\<close> are declared
  before the loop over the faces and are carried from one face to the next; the inner loop
  adds the three lip distances to \<^verbatim>\<open>mouth_height\<close>. A list with fewer than 468 landmarks
  is skipped.
\<close>

fun mouth_height_loop ::
  "int \<Rightarrow> int \<Rightarrow> NormalizedLandmarkList \<Rightarrow> nat list \<Rightarrow> nat list \<Rightarrow> float \<Rightarrow> float" where
  "mouth_height_loop fw fh landmark_list (u # us) (l # ls) mouth_height =
     mouth_height_loop fw fh landmark_list us ls
       (fadd mouth_height (GetDistance fw fh (landmark_list ! u) (landmark_list ! l)))"
| "mouth_height_loop fw fh landmark_list _ _ mouth_height = mouth_height"

fun GetStatistics_loop ::
  "int \<Rightarrow> int \<Rightarrow> NormalizedLandmarkList list \<Rightarrow> float \<Rightarrow> float \<Rightarrow> float list \<Rightarrow> float list" where
  "GetStatistics_loop fw fh [] mouth_width mouth_height lip_statistics = lip_statistics"
| "GetStatistics_loop fw fh (landmark_list # rest) mouth_width mouth_height lip_statistics =
     (if length landmark_list < kFaceMeshLandmarks
      then GetStatistics_loop fw fh rest mouth_width mouth_height lip_statistics
      else
        (let mouth_width' = GetDistance fw fh (landmark_list ! kLipLeftInnerCornerIdx)
                                              (landmark_list ! kLipRightInnerCornerIdx);
             summed = mouth_height_loop fw fh landmark_list kLipUpperIdx kLipLowerIdx mouth_height;
             mouth_height' = fdiv summed (float_of_nat (length kLipUpperIdx))
         in GetStatistics_loop fw fh rest mouth_width' mouth_height'
              (lip_statistics @ [fdiv mouth_height' mouth_width'])))"

definition GetStatistics :: "int \<Rightarrow> int \<Rightarrow> NormalizedLandmarkList list \<Rightarrow> float list" where
  "GetStatistics fw fh landmark_lists = GetStatistics_loop fw fh landmark_lists (Fin 0) (Fin 0) []"

section \<open>Options, containers and the calculator's state\<close>

text \<open>
  The options message. Its \<^verbatim>\<open>.proto\<close> file is not among the sources, so the field types
  are taken from the way the calculator uses each field: the two history lengths are
  compared with container sizes and are natural numbers, \<^verbatim>\<open>min_speaker_span\<close> is compared
  with a difference of timestamps (microseconds), \<^verbatim>\<open>min_shot_span\<close> with seconds.
\<close>

record LipTrackCalculatorOptions =
  min_speaker_span :: int
  variance_history :: nat
  mean_history :: nat
  lip_mean_threshold_big_mouth :: float
  lip_variance_threshold_big_mouth :: float
  lip_mean_threshold_small_mouth :: float
  lip_variance_threshold_small_mouth :: float
  iou_threshold :: float
  min_shot_span :: float
  output_shot_boundary :: bool
  output_shot_boundary_only_on_change :: bool

text \<open>
  \<^verbatim>\<open>std::map<int32, T>\<close>. Keys are face indices and meta face ids, never negative.
  The maps of histories and of meta faces are only indexed, never iterated, and are
  partial functions: \<open>map_insert\<close> is \<^verbatim>\<open>insert\<close> (no effect on a key that is present),
  \<^verbatim>\<open>m[k] = v\<close> is \<open>m(k \<mapsto> v)\<close>, and \<open>map_get d\<close> is the value \<^verbatim>\<open>m[k]\<close> reads, where
  \<open>d\<close> is the default-constructed value an absent key gets.
\<close>

type_synonym 'v std_map = "nat \<rightharpoonup> 'v"

definition map_insert :: "nat \<Rightarrow> 'v \<Rightarrow> 'v std_map \<Rightarrow> 'v std_map" where
  "map_insert k v m = (if m k = None then m(k \<mapsto> v) else m)"

definition map_get :: "'v \<Rightarrow> nat \<Rightarrow> 'v std_map \<Rightarrow> 'v" where
  "map_get d k m = (case m k of None \<Rightarrow> d | Some v \<Rightarrow> v)"

text \<open>
  The map of speaker counts is iterated, so it keeps its entries in increasing key order,
  the order the iterator visits them: \<open>omap_insert\<close> is \<^verbatim>\<open>insert\<close>, \<open>omap_assign\<close> is
  \<^verbatim>\<open>m[k] = v\<close>, and \<^verbatim>\<open>find\<close> is \<open>map_of\<close>.
\<close>

type_synonym 'v ordered_map = "(nat \<times> 'v) list"

fun omap_insert :: "nat \<Rightarrow> 'v \<Rightarrow> 'v ordered_map \<Rightarrow> 'v ordered_map" where
  "omap_insert k v [] = [(k, v)]"
| "omap_insert k v ((k', v') # m) =
     (if k < k' then (k, v) # (k', v') # m
      else if k = k' then (k', v') # m
      else (k', v') # omap_insert k v m)"

fun omap_assign :: "nat \<Rightarrow> 'v \<Rightarrow> 'v ordered_map \<Rightarrow> 'v ordered_map" where
  "omap_assign k v [] = [(k, v)]"
| "omap_assign k v ((k', v') # m) =
     (if k < k' then (k, v) # (k', v') # m
      else if k = k' then (k, v) # m
      else (k', v') # omap_assign k v m)"

text \<open>
  Reading or writing a \<^verbatim>\<open>std::vector\<close> with \<^verbatim>\<open>operator[]\<close> outside its bounds is
  undefined behaviour; the model stops with \<open>OutOfRange\<close>. \<open>NoVideoInput\<close> is the status
  \<^verbatim>\<open>Process\<close> returns when the video packet is empty.
\<close>

datatype error = NoVideoInput | OutOfRange

definition bind_err :: "error + 'a \<Rightarrow> ('a \<Rightarrow> error + 'b) \<Rightarrow> error + 'b" where
  "bind_err r f = (case r of Inl e \<Rightarrow> Inl e | Inr v \<Rightarrow> f v)"

definition vec_at :: "'a list \<Rightarrow> nat \<Rightarrow> error + 'a" where
  "vec_at xs i = (if i < length xs then Inr (xs ! i) else Inl OutOfRange)"

definition vec_set :: "'a list \<Rightarrow> nat \<Rightarrow> 'a \<Rightarrow> error + 'a list" where
  "vec_set xs i v = (if i < length xs then Inr (xs[i := v]) else Inl OutOfRange)"

text \<open>One buffered frame (the copy of the image is only drawn on, never read here).\<close>

record LipSignal =
  landmark_lists :: "NormalizedLandmarkList list"
  detections :: "Detection list"
  timestamp :: int

text \<open>
  The members of the calculator. An index that is \<^verbatim>\<open>-1\<close> in the source for "none" is
  \<open>None\<close>. Timestamps are in microseconds.
\<close>

record LipTrackCalculator =
  face_bbox :: "Detection list"
  face_statistics :: "float list std_map"
  meta_face_indices :: "nat list"
  speaker_mean :: float
  speaker_variance :: float
  pre_dominate_speaker_id :: "nat option"
  pre_dominate_speaker_detection :: "Detection list"
  last_shot_timestamp :: int
  frame_width :: int
  frame_height :: int
  signal_buff :: "LipSignal list"

text \<open>
  The calculator context: whether the graph connects the \<^verbatim>\<open>IS_SPEAKER_CHANGE\<close> stream,
  and the packets added so far to it and to \<^verbatim>\<open>DETECTIONS_SPEAKERS\<close>, each with its
  timestamp. The visualization stream is left out.
\<close>

record CalculatorContext =
  has_shot_tag :: bool
  shot_out :: "(bool \<times> int) list"
  roi_out :: "(Detection list \<times> int) list"

section \<open>Face association\<close>

fun MatchFace_loop ::
  "float \<Rightarrow> Detection \<Rightarrow> Detection list \<Rightarrow> nat \<Rightarrow> nat option \<Rightarrow> float \<Rightarrow> nat option" where
  "MatchFace_loop thr bbox_in [] i idx maxi_iou = idx"
| "MatchFace_loop thr bbox_in (bbox # rest) i idx maxi_iou =
     (let iou = GetIOU bbox bbox_in
      in if fless iou thr then MatchFace_loop thr bbox_in rest (Suc i) idx maxi_iou
         else if fless maxi_iou iou then MatchFace_loop thr bbox_in rest (Suc i) (Some i) iou
         else MatchFace_loop thr bbox_in rest (Suc i) idx maxi_iou)"

definition MatchFace :: "LipTrackCalculatorOptions \<Rightarrow> LipTrackCalculator \<Rightarrow> Detection \<Rightarrow> nat option" where
  "MatchFace opts calc bbox_in =
     MatchFace_loop (iou_threshold opts) bbox_in (face_bbox calc) 0 None (Fin 0)"

section \<open>The active-speaker classifier\<close>

text \<open>The loop \<^verbatim>\<open>for (i = from; i < size; ++i) mean_short += stats[i]\<close>.\<close>

function sum_from :: "float list \<Rightarrow> nat \<Rightarrow> float \<Rightarrow> float" where
  "sum_from stats i acc = (if i < length stats then sum_from stats (Suc i) (fadd acc (stats ! i)) else acc)"
  by pat_completeness auto
termination
  by (relation "measure (\<lambda>(stats, i, acc). length stats - i)") auto

text \<open>
  The three locals of \<^verbatim>\<open>IsActiveSpeaker\<close>. \<open>mean_short_of\<close> reads \<open>stats ! 0\<close>; the
  classifier computes it only after the size test, on a history that is not empty.
\<close>

definition mean_short_of :: "LipTrackCalculatorOptions \<Rightarrow> float list \<Rightarrow> float" where
  "mean_short_of opts stats =
     (if length stats < mean_history opts then stats ! 0
      else fdiv (sum_from stats (length stats - mean_history opts) (Fin 0))
                (float_of_nat (mean_history opts)))"

definition mean_of :: "float list \<Rightarrow> float" where
  "mean_of stats = fdiv (foldl fadd (Fin 0) stats) (float_of_nat (length stats))"

definition variance_of :: "float list \<Rightarrow> float" where
  "variance_of stats =
     fdiv (foldl (\<lambda>acc v. fadd acc (fpow2 (fsub v (mean_of stats)))) (Fin 0) stats)
          (float_of_nat (length stats))"

definition IsActiveSpeaker ::
  "LipTrackCalculatorOptions \<Rightarrow> float list \<Rightarrow> LipTrackCalculator \<Rightarrow> bool \<times> LipTrackCalculator" where
  "IsActiveSpeaker opts stats calc =
     (if length stats \<le> variance_history opts div 2 then (False, calc)
      else
        (let mean_short = mean_short_of opts stats;
             variance = variance_of stats
         in if (fle (lip_mean_threshold_big_mouth opts) mean_short
                \<and> fle (lip_variance_threshold_big_mouth opts) variance
                \<and> fless (speaker_mean calc) mean_short)
               \<or>
               (fle (lip_mean_threshold_small_mouth opts) mean_short
                \<and> fle (lip_variance_threshold_small_mouth opts) variance
                \<and> fless (speaker_variance calc) variance)
            then (True, calc\<lparr>speaker_mean := mean_short, speaker_variance := variance\<rparr>)
            else (False, calc)))"

section \<open>The window evaluation\<close>

text \<open>\<^verbatim>\<open>while (d.size() > variance_history) d.pop_front()\<close> on a deque.\<close>

function trim_history :: "nat \<Rightarrow> float list \<Rightarrow> float list" where
  "trim_history vh d = (if vh < length d then trim_history vh (tl d) else d)"
  by pat_completeness auto
termination
  by (relation "measure (\<lambda>(vh, d). length d)") auto

text \<open>
  The locals of \<^verbatim>\<open>ProcessScene\<close> that live across the frames of the window, and the
  locals of one frame.
\<close>

record scene_locals =
  meta_faces :: "nat option list std_map"
  meta_face_count :: nat
  num_of_active_speaker :: "nat ordered_map"

record frame_locals =
  cur_face_statistics :: "float list std_map"
  cur_meta_face_indices :: "nat list"
  cur_speaker_id :: "nat option"

text \<open>
  The body of the loop over the faces of a frame. \<open>statistics\<close> is the vector
  \<^verbatim>\<open>GetStatistics\<close> filled for the frame, read at the index of the detection.
  \<^verbatim>\<open>face_statistics_[previous_face_idx]\<close> is \<^verbatim>\<open>operator[]\<close> on the member map, which
  inserts an empty deque for an absent key.
\<close>

definition process_face ::
  "LipTrackCalculatorOptions \<Rightarrow> float list \<Rightarrow> nat \<Rightarrow> nat \<Rightarrow> nat \<Rightarrow> Detection \<Rightarrow>
   LipTrackCalculator \<times> scene_locals \<times> frame_locals \<Rightarrow>
   error + (LipTrackCalculator \<times> scene_locals \<times> frame_locals)" where
  "process_face opts statistics buff_size buff_position cur_face_idx bbox acc =
     (case acc of (calc, sl, fl) \<Rightarrow>
      let previous_face_idx = MatchFace opts calc bbox;
          cfs0 = map_insert cur_face_idx [] (cur_face_statistics fl)
      in bind_err
        (case previous_face_idx of
           Some p \<Rightarrow>
             (let calc1 = calc\<lparr>face_statistics := map_insert p [] (face_statistics calc)\<rparr>;
                  cfs1 = cfs0(cur_face_idx \<mapsto>
                           map_get [] cur_face_idx cfs0 @ map_get [] p (face_statistics calc1))
              in bind_err (vec_at statistics cur_face_idx) (\<lambda>s.
                 let cfs2 = cfs1(cur_face_idx \<mapsto>
                              trim_history (variance_history opts)
                                (map_get [] cur_face_idx cfs1 @ [s]))
                 in bind_err (vec_at (meta_face_indices calc1) p) (\<lambda>meta_face_idx.
                    bind_err (vec_set (map_get [] meta_face_idx (meta_faces sl)) buff_position
                                (Some cur_face_idx)) (\<lambda>row.
                    Inr (calc1,
                         sl\<lparr>meta_faces := (meta_faces sl)(meta_face_idx \<mapsto> row)\<rparr>,
                         fl\<lparr>cur_face_statistics := cfs2,
                            cur_meta_face_indices := cur_meta_face_indices fl @ [meta_face_idx]\<rparr>)))))
         | None \<Rightarrow>
             bind_err (vec_at statistics cur_face_idx) (\<lambda>s.
               let cfs1 = cfs0(cur_face_idx \<mapsto> map_get [] cur_face_idx cfs0 @ [s]);
                   mf1 = map_insert (meta_face_count sl) [] (meta_faces sl);
                   mf2 = mf1(meta_face_count sl \<mapsto>
                           map_get [] (meta_face_count sl) mf1 @ replicate buff_size None)
               in bind_err (vec_set (map_get [] (meta_face_count sl) mf2) buff_position
                              (Some cur_face_idx)) (\<lambda>row.
                  Inr (calc,
                       sl\<lparr>meta_faces := mf2(meta_face_count sl \<mapsto> row),
                          meta_face_count := Suc (meta_face_count sl)\<rparr>,
                       fl\<lparr>cur_face_statistics := cfs1,
                          cur_meta_face_indices := cur_meta_face_indices fl @ [meta_face_count sl]\<rparr>))))
        (\<lambda>(calc2, sl2, fl2).
           case IsActiveSpeaker opts (map_get [] cur_face_idx (cur_face_statistics fl2)) calc2 of
             (speaking, calc3) \<Rightarrow>
               Inr (calc3, sl2,
                    if speaking then fl2\<lparr>cur_speaker_id := Some cur_face_idx\<rparr> else fl2)))"

fun faces_loop ::
  "LipTrackCalculatorOptions \<Rightarrow> float list \<Rightarrow> nat \<Rightarrow> nat \<Rightarrow> nat \<Rightarrow> Detection list \<Rightarrow>
   LipTrackCalculator \<times> scene_locals \<times> frame_locals \<Rightarrow>
   error + (LipTrackCalculator \<times> scene_locals \<times> frame_locals)" where
  "faces_loop opts statistics buff_size buff_position cur_face_idx [] acc = Inr acc"
| "faces_loop opts statistics buff_size buff_position cur_face_idx (bbox # rest) acc =
     bind_err (process_face opts statistics buff_size buff_position cur_face_idx bbox acc)
       (faces_loop opts statistics buff_size buff_position (Suc cur_face_idx) rest)"

text \<open>The count of the frame's speaker: \<^verbatim>\<open>find\<close>, then increment or \<^verbatim>\<open>insert\<close> of 1.\<close>

definition count_speaker :: "nat \<Rightarrow> nat ordered_map \<Rightarrow> nat ordered_map" where
  "count_speaker meta_face num =
     (case map_of num meta_face of
        Some c \<Rightarrow> omap_assign meta_face (Suc c) num
      | None \<Rightarrow> omap_insert meta_face 1 num)"

text \<open>
  The body of the loop over the buffered frames: a frame without landmarks or without
  detections is passed over (\<^verbatim>\<open>continue\<close>); the history update at the end of the body
  also sets the two members \<^verbatim>\<open>speaker_mean_\<close> and \<^verbatim>\<open>speaker_variance_\<close> to zero.
\<close>

definition process_frame ::
  "LipTrackCalculatorOptions \<Rightarrow> nat \<Rightarrow> nat \<Rightarrow> LipSignal \<Rightarrow>
   LipTrackCalculator \<times> scene_locals \<Rightarrow> error + (LipTrackCalculator \<times> scene_locals)" where
  "process_frame opts buff_size buff_position signal acc =
     (case acc of (calc, sl) \<Rightarrow>
      if landmark_lists signal = [] \<or> detections signal = [] then Inr (calc, sl)
      else
        (let statistics = GetStatistics (frame_width calc) (frame_height calc) (landmark_lists signal)
         in bind_err
              (faces_loop opts statistics buff_size buff_position 0 (detections signal)
                 (calc, sl, \<lparr>cur_face_statistics = Map.empty, cur_meta_face_indices = [],
                              cur_speaker_id = None\<rparr>))
              (\<lambda>(calc1, sl1, fl1).
                 bind_err
                   (case cur_speaker_id fl1 of
                      None \<Rightarrow> Inr sl1
                    | Some sid \<Rightarrow>
                        bind_err (vec_at (cur_meta_face_indices fl1) sid) (\<lambda>meta_face.
                          Inr (sl1\<lparr>num_of_active_speaker :=
                                      count_speaker meta_face (num_of_active_speaker sl1)\<rparr>)))
                   (\<lambda>sl2.
                      Inr (calc1\<lparr>face_bbox := detections signal,
                                 face_statistics := cur_face_statistics fl1,
                                 speaker_mean := Fin 0,
                                 speaker_variance := Fin 0,
                                 meta_face_indices := cur_meta_face_indices fl1\<rparr>, sl2)))))"

fun frames_loop ::
  "LipTrackCalculatorOptions \<Rightarrow> nat \<Rightarrow> nat \<Rightarrow> LipSignal list \<Rightarrow>
   LipTrackCalculator \<times> scene_locals \<Rightarrow> error + (LipTrackCalculator \<times> scene_locals)" where
  "frames_loop opts buff_size buff_position [] acc = Inr acc"
| "frames_loop opts buff_size buff_position (signal # rest) acc =
     bind_err (process_frame opts buff_size buff_position signal acc)
       (frames_loop opts buff_size (Suc buff_position) rest)"

text \<open>The dominant speaker: one pass over the counts in key order, \<^verbatim>\<open>max_num\<close> from 0.\<close>

fun find_dominate :: "nat ordered_map \<Rightarrow> nat option \<Rightarrow> nat \<Rightarrow> nat option" where
  "find_dominate [] dominate_speaker_id max_num = dominate_speaker_id"
| "find_dominate ((k, c) # rest) dominate_speaker_id max_num =
     (if max_num < c then find_dominate rest (Some k) c
      else find_dominate rest dominate_speaker_id max_num)"

section \<open>The shot-boundary signal and the outputs\<close>

text \<open>\<^verbatim>\<open>TimestampDiff::Seconds()\<close>: a difference of timestamps, in seconds.\<close>

definition Seconds :: "int \<Rightarrow> float" where
  "Seconds d = Fin (real_of_int d / 1000000)"

definition Transmit ::
  "LipTrackCalculatorOptions \<Rightarrow> LipTrackCalculator \<Rightarrow> CalculatorContext \<Rightarrow> bool \<Rightarrow> int \<Rightarrow>
   CalculatorContext" where
  "Transmit opts calc cc is_speaker_change ts =
     (let is_speaker_change' =
            (if fless (Seconds (ts - last_shot_timestamp calc)) (min_shot_span opts) then False
             else is_speaker_change)
      in if is_speaker_change' then cc\<lparr>shot_out := shot_out cc @ [(True, ts)]\<rparr>
         else if \<not> output_shot_boundary_only_on_change opts
         then cc\<lparr>shot_out := shot_out cc @ [(False, ts)]\<rparr>
         else cc)"

text \<open>The detection of the dominant speaker in the first frame where it appears.\<close>

fun first_detection :: "LipSignal list \<Rightarrow> nat option list \<Rightarrow> error + Detection list" where
  "first_detection buff [] = Inr []"
| "first_detection buff (None # rest) = first_detection (tl buff) rest"
| "first_detection [] (Some face_id # rest) = Inl OutOfRange"
| "first_detection (signal # buff) (Some face_id # rest) =
     bind_err (vec_at (detections signal) face_id) (\<lambda>detection. Inr [detection])"

text \<open>
  The shot-boundary block of a window with a dominant speaker: the context and the
  last-shot timestamp after it. \<open>ts0\<close> is the timestamp of the first buffered frame.
\<close>

definition shot_signal ::
  "LipTrackCalculatorOptions \<Rightarrow> LipTrackCalculator \<Rightarrow> CalculatorContext \<Rightarrow> Detection list \<Rightarrow> int \<Rightarrow>
   error + (CalculatorContext \<times> int)" where
  "shot_signal opts calc cc dominate_speaker_detection ts0 =
     (if has_shot_tag cc \<and> output_shot_boundary opts then
        (if pre_dominate_speaker_id calc = None then Inr (Transmit opts calc cc True ts0, ts0)
         else if pre_dominate_speaker_detection calc \<noteq> [] then
           bind_err (vec_at dominate_speaker_detection 0) (\<lambda>cur.
             let is_speaker_change =
                   (if fless (iou_threshold opts)
                         (GetIOU (pre_dominate_speaker_detection calc ! 0) cur)
                    then False else True)
             in Inr (Transmit opts calc cc is_speaker_change ts0,
                     if is_speaker_change then ts0 else last_shot_timestamp calc))
         else Inr (cc, last_shot_timestamp calc))
      else Inr (cc, last_shot_timestamp calc))"

text \<open>The loop that adds one detection list per buffered frame.\<close>

fun roi_loop ::
  "LipSignal list \<Rightarrow> nat \<Rightarrow> nat option list \<Rightarrow> Detection list \<Rightarrow> CalculatorContext \<Rightarrow>
   error + (Detection list \<times> CalculatorContext)" where
  "roi_loop [] buff_position dominate_speaker dsd cc = Inr (dsd, cc)"
| "roi_loop (signal # rest) buff_position dominate_speaker dsd cc =
     bind_err (vec_at dominate_speaker buff_position) (\<lambda>face_id.
       case face_id of
         Some f \<Rightarrow>
           bind_err (vec_at (detections signal) f) (\<lambda>d.
           bind_err (vec_set dsd 0 d) (\<lambda>dsd'.
             roi_loop rest (Suc buff_position) dominate_speaker dsd'
               (cc\<lparr>roi_out := roi_out cc @ [([d], timestamp signal)]\<rparr>)))
       | None \<Rightarrow>
           bind_err (vec_at dsd 0) (\<lambda>d.
             roi_loop rest (Suc buff_position) dominate_speaker dsd
               (cc\<lparr>roi_out := roi_out cc @ [([d], timestamp signal)]\<rparr>)))"

definition clear_window :: "LipTrackCalculator \<Rightarrow> LipTrackCalculator" where
  "clear_window calc =
     calc\<lparr>signal_buff := [], face_bbox := [], face_statistics := Map.empty,
          meta_face_indices := []\<rparr>"

definition ProcessScene ::
  "LipTrackCalculatorOptions \<Rightarrow> LipTrackCalculator \<Rightarrow> CalculatorContext \<Rightarrow>
   error + (LipTrackCalculator \<times> CalculatorContext)" where
  "ProcessScene opts calc cc =
     bind_err
       (frames_loop opts (length (signal_buff calc)) 0 (signal_buff calc)
          (calc, \<lparr>meta_faces = Map.empty, meta_face_count = 0, num_of_active_speaker = []\<rparr>))
       (\<lambda>(calc1, sl).
          case find_dominate (num_of_active_speaker sl) None 0 of
            None \<Rightarrow>
              bind_err
                (if has_shot_tag cc \<and> output_shot_boundary opts
                 then bind_err (vec_at (signal_buff calc1) 0) (\<lambda>signal0.
                        Inr (Transmit opts calc1 cc False (timestamp signal0)))
                 else Inr cc)
                (\<lambda>cc1.
                   Inr (clear_window
                          (calc1\<lparr>pre_dominate_speaker_id := None,
                                 pre_dominate_speaker_detection := []\<rparr>),
                        cc1\<lparr>roi_out := roi_out cc1 @
                                map (\<lambda>signal. ([], timestamp signal)) (signal_buff calc1)\<rparr>))
          | Some dominate_speaker_id \<Rightarrow>
              (let dominate_speaker = map_get [] dominate_speaker_id (meta_faces sl)
               in bind_err (first_detection (signal_buff calc1) dominate_speaker) (\<lambda>dsd.
                  bind_err
                    (if has_shot_tag cc \<and> output_shot_boundary opts
                     then bind_err (vec_at (signal_buff calc1) 0) (\<lambda>signal0.
                            shot_signal opts calc1 cc dsd (timestamp signal0))
                     else Inr (cc, last_shot_timestamp calc1))
                    (\<lambda>(cc1, last_shot).
                  bind_err (roi_loop (signal_buff calc1) 0 dominate_speaker dsd cc1) (\<lambda>(dsd', cc2).
                  bind_err (vec_at dsd' 0) (\<lambda>d.
                    Inr (clear_window
                           (calc1\<lparr>last_shot_timestamp := last_shot,
                                  pre_dominate_speaker_id := Some dominate_speaker_id,
                                  pre_dominate_speaker_detection := [d]\<rparr>),
                         cc2)))))))"

section \<open>The calculator's entry points\<close>

text \<open>
  The input packets of one \<^verbatim>\<open>Process\<close> call: the video frame (its width and height; \<open>None\<close>
  is an empty packet), the landmark lists and the detections when present, and the input
  timestamp.
\<close>

record ProcessInput =
  in_video :: "(int \<times> int) option"
  in_landmarks :: "NormalizedLandmarkList list option"
  in_detections :: "Detection list option"
  in_timestamp :: int

text \<open>The calculator as constructed and after \<^verbatim>\<open>Open\<close>.\<close>

definition Open_calc :: LipTrackCalculator where
  "Open_calc =
     \<lparr>face_bbox = [], face_statistics = Map.empty, meta_face_indices = [],
      speaker_mean = Fin 0, speaker_variance = Fin 0,
      pre_dominate_speaker_id = None, pre_dominate_speaker_detection = [],
      last_shot_timestamp = 0, frame_width = - 1, frame_height = - 1, signal_buff = []\<rparr>"

definition Process ::
  "LipTrackCalculatorOptions \<Rightarrow> ProcessInput \<Rightarrow> LipTrackCalculator \<times> CalculatorContext \<Rightarrow>
   error + (LipTrackCalculator \<times> CalculatorContext)" where
  "Process opts inp acc =
     (case acc of (calc, cc) \<Rightarrow>
      (case in_video inp of
        None \<Rightarrow> Inl NoVideoInput
      | Some (w, h) \<Rightarrow>
          (let calc1 = (if frame_width calc < 0 then calc\<lparr>frame_width := w, frame_height := h\<rparr>
                        else calc);
               signal = (case (in_landmarks inp, in_detections inp) of
                           (Some ls, Some ds) \<Rightarrow>
                             \<lparr>landmark_lists = ls, detections = ds, timestamp = in_timestamp inp\<rparr>
                         | _ \<Rightarrow>
                             \<lparr>landmark_lists = [], detections = [], timestamp = in_timestamp inp\<rparr>);
               calc2 = calc1\<lparr>signal_buff := signal_buff calc1 @ [signal]\<rparr>;
               process_scene = (signal_buff calc2 \<noteq> [] \<and>
                  min_speaker_span opts \<le> in_timestamp inp - timestamp (signal_buff calc2 ! 0))
           in if process_scene then ProcessScene opts calc2 cc else Inr (calc2, cc))))"

definition Close ::
  "LipTrackCalculatorOptions \<Rightarrow> LipTrackCalculator \<times> CalculatorContext \<Rightarrow>
   error + (LipTrackCalculator \<times> CalculatorContext)" where
  "Close opts acc =
     (case acc of (calc, cc) \<Rightarrow>
      bind_err (if signal_buff calc \<noteq> [] then ProcessScene opts calc cc else Inr (calc, cc))
        (\<lambda>(calc1, cc1).
           Inr (calc1\<lparr>pre_dominate_speaker_detection := [], face_statistics := Map.empty,
                      meta_face_indices := []\<rparr>, cc1)))"

text \<open>A run of the graph: \<^verbatim>\<open>Process\<close> on each input in turn; the first error ends it.\<close>

fun run_Process ::
  "LipTrackCalculatorOptions \<Rightarrow> ProcessInput list \<Rightarrow> LipTrackCalculator \<times> CalculatorContext \<Rightarrow>
   error + (LipTrackCalculator \<times> CalculatorContext)" where
  "run_Process opts [] acc = Inr acc"
| "run_Process opts (inp # rest) acc = bind_err (Process opts inp acc) (run_Process opts rest)"

definition run_graph ::
  "LipTrackCalculatorOptions \<Rightarrow> bool \<Rightarrow> ProcessInput list \<Rightarrow>
   error + (LipTrackCalculator \<times> CalculatorContext)" where
  "run_graph opts shot_tag inps =
     bind_err (run_Process opts inps (Open_calc, \<lparr>has_shot_tag = shot_tag, shot_out = [], roi_out = []\<rparr>))
       (Close opts)"

section \<open>Example inputs\<close>

text \<open>
  Concrete inputs for the evaluations below. \<open>demo_face w h\<close> is a full face mesh whose
  inner mouth corners are \<open>w\<close> apart and whose three lip pairs are each \<open>h\<close> apart, in
  normalized coordinates; every other landmark is at the origin. All the numbers used are
  small integers or halves, on which \<^verbatim>\<open>float\<close> arithmetic is exact.
\<close>

definition demo_face :: "real \<Rightarrow> real \<Rightarrow> NormalizedLandmarkList" where
  "demo_face w h =
     (replicate 468 \<lparr>lm_x = Fin 0, lm_y = Fin 0\<rparr>)
       [308 := \<lparr>lm_x = Fin w, lm_y = Fin 0\<rparr>,
        82 := \<lparr>lm_x = Fin 0, lm_y = Fin h\<rparr>,
        13 := \<lparr>lm_x = Fin 0, lm_y = Fin h\<rparr>,
        312 := \<lparr>lm_x = Fin 0, lm_y = Fin h\<rparr>]"

definition demo_box :: "real \<Rightarrow> real \<Rightarrow> real \<Rightarrow> real \<Rightarrow> Detection" where
  "demo_box x y w h = \<lparr>xmin = Fin x, ymin = Fin y, width = Fin w, height = Fin h\<rparr>"

definition demo_opts :: LipTrackCalculatorOptions where
  "demo_opts =
     \<lparr>min_speaker_span = 2, variance_history = 1, mean_history = 1,
      lip_mean_threshold_big_mouth = Fin 2, lip_variance_threshold_big_mouth = Fin 0,
      lip_mean_threshold_small_mouth = Fin 2, lip_variance_threshold_small_mouth = Fin 0,
      iou_threshold = Fin (1 / 2), min_shot_span = Fin 2,
      output_shot_boundary = True, output_shot_boundary_only_on_change = False\<rparr>"

text \<open>The calculator after \<^verbatim>\<open>Open\<close> and a first video frame of one pixel.\<close>

definition demo_calc :: LipTrackCalculator where
  "demo_calc = Open_calc\<lparr>frame_width := 1, frame_height := 1\<rparr>"

text \<open>The locals of \<^verbatim>\<open>ProcessScene\<close> when the loop over the frames starts.\<close>

definition scene_start :: scene_locals where
  "scene_start = \<lparr>meta_faces = Map.empty, meta_face_count = 0, num_of_active_speaker = []\<rparr>"

text \<open>A frame with one full face of ratio 3 at the given box, and an empty context.\<close>

definition demo_frame :: "int \<Rightarrow> Detection \<Rightarrow> LipSignal" where
  "demo_frame ts box = \<lparr>landmark_lists = [demo_face 1 3], detections = [box], timestamp = ts\<rparr>"

definition demo_cc :: CalculatorContext where
  "demo_cc = \<lparr>has_shot_tag = True, shot_out = [], roi_out = []\<rparr>"

text \<open>The packets of one step: a one-pixel frame and one full face of ratio 3 at the box.\<close>

definition demo_input :: "int \<Rightarrow> Detection \<Rightarrow> ProcessInput" where
  "demo_input ts box =
     \<lparr>in_video = Some (1, 1), in_landmarks = Some [demo_face 1 3], in_detections = Some [box],
      in_timestamp = ts\<rparr>"

section \<open>Notions used in the statements and proofs\<close>

text \<open>
  The members that the loop over the frames never assigns, and the history the loop over
  the faces builds for a detection from the matched previous history and the new value.
\<close>

definition kept_members :: "LipTrackCalculator \<Rightarrow> LipTrackCalculator \<Rightarrow> bool" where
  "kept_members calc calc' =
     (pre_dominate_speaker_id calc' = pre_dominate_speaker_id calc
      \<and> pre_dominate_speaker_detection calc' = pre_dominate_speaker_detection calc
      \<and> last_shot_timestamp calc' = last_shot_timestamp calc
      \<and> frame_width calc' = frame_width calc
      \<and> frame_height calc' = frame_height calc
      \<and> signal_buff calc' = signal_buff calc)"

definition history_after ::
  "LipTrackCalculatorOptions \<Rightarrow> LipTrackCalculator \<Rightarrow> Detection \<Rightarrow> float \<Rightarrow> float list" where
  "history_after opts calc d s =
     (case MatchFace opts calc d of
        None \<Rightarrow> [s]
      | Some p \<Rightarrow> trim_history (variance_history opts) (map_get [] p (face_statistics calc) @ [s]))"

text \<open>
  Two packets of the shot stream are debounced when, both being \<open>True\<close>, the later one is
  not less than the given gap after the earlier one. \<open>shot_inv\<close> is the invariant of a
  run: the packets are pairwise debounced, every \<open>True\<close> packet is at or before the
  last-shot timestamp, before every buffered frame and at or before the bound \<open>hi\<close> (the
  latest input timestamp), as are the buffered frames, and no \<open>False\<close> packet was added
  when only changes are to be signalled.
\<close>

definition debounced :: "float \<Rightarrow> bool \<times> int \<Rightarrow> bool \<times> int \<Rightarrow> bool" where
  "debounced gap p q =
     (fst p \<and> fst q \<longrightarrow> snd p < snd q \<and> \<not> fless (Seconds (snd q - snd p)) gap)"

definition shot_inv ::
  "LipTrackCalculatorOptions \<Rightarrow> int \<Rightarrow> LipTrackCalculator \<times> CalculatorContext \<Rightarrow> bool" where
  "shot_inv opts hi s =
     (case s of (calc, cc) \<Rightarrow>
        sorted_wrt (debounced (min_shot_span opts)) (shot_out cc)
        \<and> (\<forall>p \<in> set (shot_out cc). fst p \<longrightarrow> snd p \<le> last_shot_timestamp calc)
        \<and> (\<forall>p \<in> set (shot_out cc). fst p \<longrightarrow> (\<forall>s \<in> set (signal_buff calc). snd p < timestamp s))
        \<and> (\<forall>p \<in> set (shot_out cc). fst p \<longrightarrow> snd p \<le> hi)
        \<and> (\<forall>s \<in> set (signal_buff calc). timestamp s \<le> hi)
        \<and> (output_shot_boundary_only_on_change opts \<longrightarrow> (\<forall>p \<in> set (shot_out cc). fst p)))"

section \<open>Facts about the float operations\<close>

lemma fmul_NaN_right [simp]: "fmul a NaN = NaN"
  by (cases a) simp_all

lemma fdiv_NaN_right [simp]: "fdiv a NaN = NaN"
  by (cases a) simp_all

lemma fmul_zero_is_finite:
  "fmul a b = Fin 0 \<Longrightarrow> \<exists>p q. a = Fin p \<and> b = Fin q \<and> (p = 0 \<or> q = 0)"
  by (cases a; cases b) (auto simp: finf_def split: if_splits)

section \<open>The loops as list functions\<close>

declare sum_from.simps [simp del] trim_history.simps [simp del]

lemma sum_from_eq: "sum_from stats i acc = foldl fadd acc (drop i stats)"
proof (induction stats i acc rule: sum_from.induct)
  case (1 stats i acc)
  show ?case
  proof (cases "i < length stats")
    case True
    then have "drop i stats = stats ! i # drop (Suc i) stats"
      by (simp add: Cons_nth_drop_Suc)
    with True 1 show ?thesis
      by (subst sum_from.simps) simp
  next
    case False
    then show ?thesis
      by (subst sum_from.simps) simp
  qed
qed

lemma trim_history_eq: "trim_history vh d = drop (length d - vh) d"
proof (induction vh d rule: trim_history.induct)
  case (1 vh d)
  show ?case
  proof (cases "vh < length d")
    case True
    then obtain x xs where d: "d = x # xs"
      by (cases d) auto
    with True 1 show ?thesis
      by (subst trim_history.simps) (simp add: Suc_diff_le)
  next
    case False
    then show ?thesis
      by (subst trim_history.simps) simp
  qed
qed

section \<open>Evaluating the example inputs\<close>

lemma GetDistance_same_y:
  "GetDistance fw fh \<lparr>lm_x = Fin a, lm_y = Fin b\<rparr> \<lparr>lm_x = Fin c, lm_y = Fin b\<rparr>
     = Fin \<bar>(a - c) * real_of_int fw\<bar>"
  by (simp add: GetDistance_def fsub_def fpow2_def float_of_int_def)

lemma GetDistance_same_x:
  "GetDistance fw fh \<lparr>lm_x = Fin a, lm_y = Fin b\<rparr> \<lparr>lm_x = Fin a, lm_y = Fin c\<rparr>
     = Fin \<bar>(b - c) * real_of_int fh\<bar>"
  by (simp add: GetDistance_def fsub_def fpow2_def float_of_int_def)

lemma demo_face_length: "length (demo_face w h) = 468"
  by (simp add: demo_face_def)

lemma demo_face_nth:
  "demo_face w h ! 78 = \<lparr>lm_x = Fin 0, lm_y = Fin 0\<rparr>"
  "demo_face w h ! 308 = \<lparr>lm_x = Fin w, lm_y = Fin 0\<rparr>"
  "demo_face w h ! 82 = \<lparr>lm_x = Fin 0, lm_y = Fin h\<rparr>"
  "demo_face w h ! 13 = \<lparr>lm_x = Fin 0, lm_y = Fin h\<rparr>"
  "demo_face w h ! 312 = \<lparr>lm_x = Fin 0, lm_y = Fin h\<rparr>"
  "demo_face w h ! 87 = \<lparr>lm_x = Fin 0, lm_y = Fin 0\<rparr>"
  "demo_face w h ! 14 = \<lparr>lm_x = Fin 0, lm_y = Fin 0\<rparr>"
  "demo_face w h ! 317 = \<lparr>lm_x = Fin 0, lm_y = Fin 0\<rparr>"
  by (simp_all add: demo_face_def)

lemma mouth_height_demo_face:
  "mouth_height_loop fw fh (demo_face w h) kLipUpperIdx kLipLowerIdx (Fin m)
     = Fin (m + 3 * \<bar>h * real_of_int fh\<bar>)"
  by (simp add: demo_face_nth kLipUpperIdx_def kLipLowerIdx_def GetDistance_same_x)

lemma mouth_width_demo_face:
  "GetDistance fw fh (demo_face w h ! kLipLeftInnerCornerIdx) (demo_face w h ! kLipRightInnerCornerIdx)
     = Fin \<bar>w * real_of_int fw\<bar>"
  by (simp add: demo_face_nth kLipLeftInnerCornerIdx_def kLipRightInnerCornerIdx_def
      GetDistance_same_y)

lemma fdiv_three: "fdiv (Fin s) (float_of_nat (length kLipUpperIdx)) = Fin (s / 3)"
  by (simp add: kLipUpperIdx_def float_of_nat_def)

lemma GetStatistics_loop_demo_face:
  "GetStatistics_loop fw fh (demo_face w h # rest) mw (Fin m) stats =
     GetStatistics_loop fw fh rest (Fin \<bar>w * real_of_int fw\<bar>)
       (Fin ((m + 3 * \<bar>h * real_of_int fh\<bar>) / 3))
       (stats @ [fdiv (Fin ((m + 3 * \<bar>h * real_of_int fh\<bar>) / 3)) (Fin \<bar>w * real_of_int fw\<bar>)])"
proof -
  have "\<not> length (demo_face w h) < kFaceMeshLandmarks"
    by (simp add: demo_face_length kFaceMeshLandmarks_def)
  then show ?thesis
    by (simp only: GetStatistics_loop.simps if_False Let_def mouth_height_demo_face
        mouth_width_demo_face fdiv_three)
qed

lemma GetStatistics_loop_short:
  "length l < 468 \<Longrightarrow>
     GetStatistics_loop fw fh (l # rest) mw mh stats = GetStatistics_loop fw fh rest mw mh stats"
  by (simp add: kFaceMeshLandmarks_def)

lemma GetStatistics_one_face: "GetStatistics 1 1 [demo_face 1 3] = [Fin 3]"
  by (simp add: GetStatistics_def GetStatistics_loop_demo_face del: GetStatistics_loop.simps(2))

lemma GetStatistics_short_then_face: "GetStatistics 1 1 [[], demo_face 1 3] = [Fin 3]"
  by (simp add: GetStatistics_def GetStatistics_loop_demo_face GetStatistics_loop_short
      del: GetStatistics_loop.simps(2))

lemmas eval_defs =
  process_frame_def process_face_def demo_calc_def Open_calc_def demo_opts_def demo_box_def
  scene_start_def MatchFace_def bind_err_def vec_at_def vec_set_def map_insert_def map_get_def
  IsActiveSpeaker_def mean_short_of_def variance_of_def mean_of_def float_of_nat_def fpow2_def
  fsub_def sum_from_eq trim_history_eq count_speaker_def Let_def

section \<open>Alignment of the statistics with the faces\<close>

text \<open>
  Claim C1. The statistic used for the face at detection index \<open>i\<close> should be the one
  computed from that face's landmarks, with a skipped face treated as a gap and every read
  in bounds. The extractor appends one entry per face that is not skipped, and the loop
  over the detections reads the vector at the detection index. Evaluated on a frame whose
  first landmark list is short and whose second is a full face: with two detections the
  read for the second detection is outside the one-entry vector; with one detection the
  history of detection 0 receives the value 3, which is the statistic of the second
  landmark list.
\<close>

theorem statistics_read_at_detection_index:
  "process_frame demo_opts 1 0
     \<lparr>landmark_lists = [[], demo_face 1 3],
      detections = [demo_box 0 0 1 1, demo_box 2 0 1 1], timestamp = 0\<rparr>
     (demo_calc, scene_start) = Inl OutOfRange
   \<and> process_frame demo_opts 1 0
     \<lparr>landmark_lists = [[], demo_face 1 3], detections = [demo_box 0 0 1 1], timestamp = 0\<rparr>
     (demo_calc, scene_start) =
       Inr (demo_calc\<lparr>face_bbox := [demo_box 0 0 1 1], face_statistics := [0 \<mapsto> [Fin 3]],
              meta_face_indices := [0]\<rparr>,
            \<lparr>meta_faces = [0 \<mapsto> [Some 0]], meta_face_count = 1,
             num_of_active_speaker = [(0, 1)]\<rparr>)"
  by (simp add: eval_defs GetStatistics_short_then_face)

section \<open>The mouth aspect ratio\<close>

text \<open>
  Claim C2. Every full face should get its own ratio: the average of its three lip
  distances over its mouth width, wherever it stands in the sequence. The variable
  \<^verbatim>\<open>mouth_height\<close> is not reset between faces, so the second face starts from the
  first face's average. Evaluated on a one-pixel frame: the face with width 1 and lip
  distance 1 gets the ratio 1 when it is alone and the ratio \<open>(3 + 1 + 1 + 1) / 3 = 2\<close> when
  it follows a face with lip distance 3.
\<close>

theorem mouth_height_carried_to_next_face:
  "GetStatistics 1 1 [demo_face 1 1] = [Fin 1]
   \<and> GetStatistics 1 1 [demo_face 1 3, demo_face 1 1] = [Fin 3, Fin 2]"
  by (simp add: GetStatistics_def GetStatistics_loop_demo_face del: GetStatistics_loop.simps(2))

section \<open>Intersection over union of degenerate boxes\<close>

lemma span_zero_width:
  assumes "aw = Fin 0" and "bw = Fin q"
  shows "fle (fsub (fmin (fadd ax aw) (fadd bx bw)) (fmax ax bx)) (Fin 0)
       \<or> fsub (fmin (fadd ax aw) (fadd bx bw)) (fmax ax bx) = NaN"
  using assms by (cases ax; cases bx) (auto simp: fmin_def fmax_def fsub_def)

lemma rect_inter_area_zero_area:
  assumes "rect_area a = Fin 0" and "rect_area b = Fin 0"
  shows "rect_area (rect_inter a b) = Fin 0 \<or> rect_area (rect_inter a b) = NaN"
proof -
  obtain aw ah where a: "rect_width a = Fin aw" "rect_height a = Fin ah" "aw = 0 \<or> ah = 0"
    using fmul_zero_is_finite[OF assms(1)[unfolded rect_area_def]] by blast
  obtain bw bh where b: "rect_width b = Fin bw" "rect_height b = Fin bh"
    using fmul_zero_is_finite[OF assms(2)[unfolded rect_area_def]] by blast
  let ?w = "fsub (fmin (fadd (rect_x a) (rect_width a)) (fadd (rect_x b) (rect_width b)))
              (fmax (rect_x a) (rect_x b))"
  let ?h = "fsub (fmin (fadd (rect_y a) (rect_height a)) (fadd (rect_y b) (rect_height b)))
              (fmax (rect_y a) (rect_y b))"
  from a(3) have "(fle ?w (Fin 0) \<or> ?w = NaN) \<or> (fle ?h (Fin 0) \<or> ?h = NaN)"
  proof
    assume "aw = 0"
    then show ?thesis
      using span_zero_width[of "rect_width a" "rect_width b" bw "rect_x a" "rect_x b"] a b
      by simp
  next
    assume "ah = 0"
    then show ?thesis
      using span_zero_width[of "rect_height a" "rect_height b" bh "rect_y a" "rect_y b"] a b
      by simp
  qed
  then show ?thesis
    by (auto simp: rect_inter_def rect_area_def Rect_zero_def Let_def)
qed

lemma rect_union_zero_area:
  assumes "rect_area a = Fin 0"
  shows "rect_union a b = b"
proof -
  obtain aw ah where "rect_width a = Fin aw" "rect_height a = Fin ah" "aw = 0 \<or> ah = 0"
    using fmul_zero_is_finite[OF assms(1)[unfolded rect_area_def]] by blast
  then have "rect_empty a"
    by (auto simp: rect_empty_def)
  then show ?thesis
    by (simp add: rect_union_def)
qed

text \<open>
  Claim C6, as stated: for two boxes of zero area \<^verbatim>\<open>GetIOU\<close> returns 0 instead of dividing
  by a zero union area. It fails for two boxes that are the single point at the origin:
  the function has no test of the divisor, divides 0 by 0, and the result is NaN.
\<close>

theorem GetIOU_zero_area_counterexample:
  "GetIOU (demo_box 0 0 0 0) (demo_box 0 0 0 0) = NaN
   \<and> GetIOU (demo_box 0 0 0 0) (demo_box 0 0 0 0) \<noteq> Fin 0"
  by (simp add: GetIOU_def DetectionToRect_def rect_inter_def rect_union_def rect_area_def
      rect_empty_def Rect_zero_def fmax_def fmin_def fsub_def demo_box_def Let_def)

text \<open>
  Claim C6, amended: for every pair of boxes of zero area (the product of width and height
  is 0) the division is performed unguarded and \<^verbatim>\<open>GetIOU\<close> returns NaN, whatever the
  positions of the boxes.
\<close>

theorem GetIOU_zero_area:
  assumes "rect_area (DetectionToRect bbox_1) = Fin 0"
    and "rect_area (DetectionToRect bbox_2) = Fin 0"
  shows "GetIOU bbox_1 bbox_2 = NaN"
  using rect_inter_area_zero_area[OF assms] rect_union_zero_area[OF assms(1)] assms(2)
  by (auto simp: GetIOU_def Let_def)

theorem GetIOU_zero_area_witness:
  "rect_area (DetectionToRect (demo_box 1 2 0 5)) = Fin 0
   \<and> rect_area (DetectionToRect (demo_box 3 4 7 0)) = Fin 0
   \<and> GetIOU (demo_box 1 2 0 5) (demo_box 3 4 7 0) = NaN"
proof -
  have a: "rect_area (DetectionToRect (demo_box 1 2 0 5)) = Fin 0"
    by (simp add: rect_area_def DetectionToRect_def demo_box_def)
  have b: "rect_area (DetectionToRect (demo_box 3 4 7 0)) = Fin 0"
    by (simp add: rect_area_def DetectionToRect_def demo_box_def)
  show ?thesis
    using a b GetIOU_zero_area[OF a b] by simp
qed

section \<open>The short mean of the classifier\<close>

text \<open>
  Claim C4, as stated: on a history that passes the size test, \<open>mean_short\<close> is the average
  of the last \<open>mean_history\<close> values when there are that many, and otherwise equals the
  single stored value. The second half fails: with \<open>variance_history = 2\<close> and
  \<open>mean_history = 3\<close> the history \<open>[1, 3]\<close> passes the size test and is shorter than
  \<open>mean_history\<close>, yet it stores two values; \<open>mean_short\<close> is 1, the value at index 0.
\<close>

theorem mean_short_counterexample:
  "variance_history (demo_opts\<lparr>variance_history := 2, mean_history := 3\<rparr>) div 2 < length [Fin 1, Fin 3]
   \<and> length [Fin 1, Fin 3] < mean_history (demo_opts\<lparr>variance_history := 2, mean_history := 3\<rparr>)
   \<and> mean_short_of (demo_opts\<lparr>variance_history := 2, mean_history := 3\<rparr>) [Fin 1, Fin 3] = Fin 1
   \<and> [Fin 1, Fin 3] \<noteq> [mean_short_of (demo_opts\<lparr>variance_history := 2, mean_history := 3\<rparr>) [Fin 1, Fin 3]]"
  by (simp add: demo_opts_def mean_short_of_def)

text \<open>
  Claim C4, amended: on a history of length \<open>N\<close> that passes the size test, \<open>mean_short\<close>
  is the sum of the last \<open>mean_history\<close> values divided by \<open>mean_history\<close> when
  \<open>N \<ge> mean_history\<close>, and the oldest stored value (index 0) when \<open>N < mean_history\<close>;
  it is the value the classifier records as \<open>speaker_mean\<close> on a positive decision.
\<close>

theorem mean_short_of_history:
  assumes "variance_history opts div 2 < length stats"
  shows "mean_short_of opts stats =
           (if mean_history opts \<le> length stats
            then fdiv (foldl fadd (Fin 0) (drop (length stats - mean_history opts) stats))
                      (float_of_nat (mean_history opts))
            else hd stats)
         \<and> (fst (IsActiveSpeaker opts stats calc) \<longrightarrow>
              speaker_mean (snd (IsActiveSpeaker opts stats calc)) = mean_short_of opts stats)"
proof -
  from assms have "stats \<noteq> []" by auto
  then have "stats ! 0 = hd stats" by (simp add: hd_conv_nth)
  then show ?thesis
    by (simp add: mean_short_of_def sum_from_eq IsActiveSpeaker_def Let_def)
qed

theorem mean_short_of_history_witness:
  "variance_history (demo_opts\<lparr>variance_history := 4, mean_history := 2\<rparr>) div 2
     < length [Fin 1, Fin 3, Fin 5]
   \<and> mean_short_of (demo_opts\<lparr>variance_history := 4, mean_history := 2\<rparr>) [Fin 1, Fin 3, Fin 5] = Fin 4
   \<and> mean_short_of (demo_opts\<lparr>variance_history := 2, mean_history := 3\<rparr>) [Fin 1, Fin 3] = Fin 1"
  using mean_short_of_history[of "demo_opts\<lparr>variance_history := 4, mean_history := 2\<rparr>" "[Fin 1, Fin 3, Fin 5]" demo_calc]
    mean_short_of_history[of "demo_opts\<lparr>variance_history := 2, mean_history := 3\<rparr>" "[Fin 1, Fin 3]" demo_calc]
  by (simp add: demo_opts_def float_of_nat_def)


section \<open>Face association by maximum overlap\<close>

lemma fless_not_NaN: "fless a b \<Longrightarrow> a \<noteq> NaN \<and> b \<noteq> NaN"
  by (cases a; cases b) auto

lemma fless_irrefl [simp]: "\<not> fless a a"
  by (cases a) auto

lemma fless_trans: "fless a b \<Longrightarrow> fless b c \<Longrightarrow> fless a c"
  by (cases a; cases b; cases c) auto

lemma fless_asym: "fless a b \<Longrightarrow> \<not> fless b a"
  by (cases a; cases b) auto

lemma fless_linear: "a \<noteq> NaN \<Longrightarrow> b \<noteq> NaN \<Longrightarrow> fless a b \<or> a = b \<or> fless b a"
  by (cases a; cases b) auto

lemma MatchFace_loop_spec:
  assumes "maxi \<noteq> NaN"
  shows "(MatchFace_loop thr face bs i idx maxi = idx
          \<and> (\<forall>j<length bs. \<not> fless (GetIOU (bs ! j) face) thr \<longrightarrow> \<not> fless maxi (GetIOU (bs ! j) face)))
       \<or> (\<exists>k<length bs. MatchFace_loop thr face bs i idx maxi = Some (i + k)
            \<and> \<not> fless (GetIOU (bs ! k) face) thr
            \<and> fless maxi (GetIOU (bs ! k) face)
            \<and> (\<forall>j<length bs. \<not> fless (GetIOU (bs ! j) face) thr \<longrightarrow>
                   \<not> fless (GetIOU (bs ! k) face) (GetIOU (bs ! j) face))
            \<and> (\<forall>j<k. \<not> fless (GetIOU (bs ! j) face) thr \<and> GetIOU (bs ! j) face \<noteq> NaN \<longrightarrow>
                   fless (GetIOU (bs ! j) face) (GetIOU (bs ! k) face)))"
  using assms
proof (induction bs arbitrary: i idx maxi)
  case Nil
  then show ?case by simp
next
  case (Cons b rest)
  let ?iou = "GetIOU b face"
  let ?I = "\<lambda>j. GetIOU (rest ! j) face"
  show ?case
  proof (cases "fless ?iou thr")
    case skip: True
    from Cons.IH[OF Cons.prems, of "Suc i" idx]
    show ?thesis
    proof (elim disjE conjE exE)
      assume r: "MatchFace_loop thr face rest (Suc i) idx maxi = idx"
        and a: "\<forall>j<length rest. \<not> fless (?I j) thr \<longrightarrow> \<not> fless maxi (?I j)"
      have "\<forall>j<length (b # rest). \<not> fless (GetIOU ((b # rest) ! j) face) thr \<longrightarrow>
              \<not> fless maxi (GetIOU ((b # rest) ! j) face)"
        using a skip by (auto simp: nth_Cons split: nat.splits)
      with r skip show ?thesis by simp
    next
      fix k assume k: "k < length rest"
        and r: "MatchFace_loop thr face rest (Suc i) idx maxi = Some (Suc i + k)"
        and e: "\<not> fless (?I k) thr" and m: "fless maxi (?I k)"
        and mx: "\<forall>j<length rest. \<not> fless (?I j) thr \<longrightarrow> \<not> fless (?I k) (?I j)"
        and fs: "\<forall>j<k. \<not> fless (?I j) thr \<and> ?I j \<noteq> NaN \<longrightarrow> fless (?I j) (?I k)"
      have "Suc k < length (b # rest) \<and> MatchFace_loop thr face (b # rest) i idx maxi = Some (i + Suc k)
            \<and> \<not> fless (GetIOU ((b # rest) ! Suc k) face) thr
            \<and> fless maxi (GetIOU ((b # rest) ! Suc k) face)
            \<and> (\<forall>j<length (b # rest). \<not> fless (GetIOU ((b # rest) ! j) face) thr \<longrightarrow>
                   \<not> fless (GetIOU ((b # rest) ! Suc k) face) (GetIOU ((b # rest) ! j) face))
            \<and> (\<forall>j<Suc k. \<not> fless (GetIOU ((b # rest) ! j) face) thr \<and> GetIOU ((b # rest) ! j) face \<noteq> NaN \<longrightarrow>
                   fless (GetIOU ((b # rest) ! j) face) (GetIOU ((b # rest) ! Suc k) face))"
        using k r e m mx fs skip by (auto simp: nth_Cons split: nat.splits)
      then show ?thesis by blast
    qed
  next
    case noskip: False
    show ?thesis
    proof (cases "fless maxi ?iou")
      case acc: True
      then have nn: "?iou \<noteq> NaN" using fless_not_NaN by blast
      from Cons.IH[OF nn, of "Suc i" "Some i"]
      show ?thesis
      proof (elim disjE conjE exE)
        assume r: "MatchFace_loop thr face rest (Suc i) (Some i) ?iou = Some i"
          and a: "\<forall>j<length rest. \<not> fless (?I j) thr \<longrightarrow> \<not> fless ?iou (?I j)"
        have "0 < length (b # rest) \<and> MatchFace_loop thr face (b # rest) i idx maxi = Some (i + 0)
            \<and> \<not> fless (GetIOU ((b # rest) ! 0) face) thr
            \<and> fless maxi (GetIOU ((b # rest) ! 0) face)
            \<and> (\<forall>j<length (b # rest). \<not> fless (GetIOU ((b # rest) ! j) face) thr \<longrightarrow>
                   \<not> fless (GetIOU ((b # rest) ! 0) face) (GetIOU ((b # rest) ! j) face))
            \<and> (\<forall>j<0. \<not> fless (GetIOU ((b # rest) ! j) face) thr \<and> GetIOU ((b # rest) ! j) face \<noteq> NaN \<longrightarrow>
                   fless (GetIOU ((b # rest) ! j) face) (GetIOU ((b # rest) ! 0) face))"
          using r a noskip acc by (auto simp: nth_Cons split: nat.splits)
        then show ?thesis by blast
      next
        fix k assume k: "k < length rest"
          and r: "MatchFace_loop thr face rest (Suc i) (Some i) ?iou = Some (Suc i + k)"
          and e: "\<not> fless (?I k) thr" and m: "fless ?iou (?I k)"
          and mx: "\<forall>j<length rest. \<not> fless (?I j) thr \<longrightarrow> \<not> fless (?I k) (?I j)"
          and fs: "\<forall>j<k. \<not> fless (?I j) thr \<and> ?I j \<noteq> NaN \<longrightarrow> fless (?I j) (?I k)"
        have "Suc k < length (b # rest) \<and> MatchFace_loop thr face (b # rest) i idx maxi = Some (i + Suc k)
            \<and> \<not> fless (GetIOU ((b # rest) ! Suc k) face) thr
            \<and> fless maxi (GetIOU ((b # rest) ! Suc k) face)
            \<and> (\<forall>j<length (b # rest). \<not> fless (GetIOU ((b # rest) ! j) face) thr \<longrightarrow>
                   \<not> fless (GetIOU ((b # rest) ! Suc k) face) (GetIOU ((b # rest) ! j) face))
            \<and> (\<forall>j<Suc k. \<not> fless (GetIOU ((b # rest) ! j) face) thr \<and> GetIOU ((b # rest) ! j) face \<noteq> NaN \<longrightarrow>
                   fless (GetIOU ((b # rest) ! j) face) (GetIOU ((b # rest) ! Suc k) face))"
          using k r e m mx fs noskip acc fless_trans[OF acc m] fless_asym[OF m]
          by (auto simp: nth_Cons split: nat.splits)
        then show ?thesis by blast
      qed
    next
      case noacc: False
      from Cons.IH[OF Cons.prems, of "Suc i" idx]
      show ?thesis
      proof (elim disjE conjE exE)
        assume r: "MatchFace_loop thr face rest (Suc i) idx maxi = idx"
          and a: "\<forall>j<length rest. \<not> fless (?I j) thr \<longrightarrow> \<not> fless maxi (?I j)"
        have "\<forall>j<length (b # rest). \<not> fless (GetIOU ((b # rest) ! j) face) thr \<longrightarrow>
                \<not> fless maxi (GetIOU ((b # rest) ! j) face)"
          using a noacc by (auto simp: nth_Cons split: nat.splits)
        with r noskip noacc show ?thesis by simp
      next
        fix k assume k: "k < length rest"
          and r: "MatchFace_loop thr face rest (Suc i) idx maxi = Some (Suc i + k)"
          and e: "\<not> fless (?I k) thr" and m: "fless maxi (?I k)"
          and mx: "\<forall>j<length rest. \<not> fless (?I j) thr \<longrightarrow> \<not> fless (?I k) (?I j)"
          and fs: "\<forall>j<k. \<not> fless (?I j) thr \<and> ?I j \<noteq> NaN \<longrightarrow> fless (?I j) (?I k)"
        have 1: "\<not> fless (?I k) ?iou"
          using fless_trans[OF m] noacc by blast
        have 2: "?iou \<noteq> NaN \<Longrightarrow> fless ?iou (?I k)"
          using fless_linear[OF Cons.prems, of ?iou] noacc m fless_trans by blast
        have "Suc k < length (b # rest) \<and> MatchFace_loop thr face (b # rest) i idx maxi = Some (i + Suc k)
            \<and> \<not> fless (GetIOU ((b # rest) ! Suc k) face) thr
            \<and> fless maxi (GetIOU ((b # rest) ! Suc k) face)
            \<and> (\<forall>j<length (b # rest). \<not> fless (GetIOU ((b # rest) ! j) face) thr \<longrightarrow>
                   \<not> fless (GetIOU ((b # rest) ! Suc k) face) (GetIOU ((b # rest) ! j) face))
            \<and> (\<forall>j<Suc k. \<not> fless (GetIOU ((b # rest) ! j) face) thr \<and> GetIOU ((b # rest) ! j) face \<noteq> NaN \<longrightarrow>
                   fless (GetIOU ((b # rest) ! j) face) (GetIOU ((b # rest) ! Suc k) face))"
          using k r e m mx fs noskip noacc 1 2
          by (auto simp: nth_Cons split: nat.splits)
        then show ?thesis by blast
      qed
    qed
  qed
qed


lemma GetIOU_demo_half: "GetIOU (demo_box 0 0 1 1) (demo_box 0 0 1 2) = Fin (1 / 2)"
  by (simp add: GetIOU_def DetectionToRect_def rect_inter_def rect_union_def rect_area_def
      rect_empty_def Rect_zero_def fmax_def fmin_def fsub_def demo_box_def Let_def)

text \<open>
  Claim C5, as stated: a previous detection is returned only if its IOU strictly exceeds
  \<open>iou_threshold\<close>. It fails when the IOU equals the threshold: the loop passes over a
  previous detection only when its IOU is below the threshold. The boxes \<open>(0,0,1,1)\<close> and
  \<open>(0,0,1,2)\<close> have IOU one half, the threshold is one half, and the face is matched.
\<close>

theorem MatchFace_threshold_counterexample:
  "MatchFace demo_opts (demo_calc\<lparr>face_bbox := [demo_box 0 0 1 1]\<rparr>) (demo_box 0 0 1 2) = Some 0
   \<and> \<not> fless (iou_threshold demo_opts) (GetIOU (demo_box 0 0 1 1) (demo_box 0 0 1 2))"
  by (simp add: MatchFace_def GetIOU_demo_half demo_opts_def demo_calc_def Open_calc_def)

text \<open>
  Claim C5, amended: the candidates are the previous detections whose IOU is not below
  \<open>iou_threshold\<close> (an IOU equal to the threshold qualifies) and is greater than 0.
  \<^verbatim>\<open>MatchFace\<close> returns "new" exactly when there is no candidate; otherwise it returns a
  candidate of maximum IOU, and every earlier previous detection that is not below the
  threshold has a strictly smaller IOU: under ties the first maximum wins.
\<close>

theorem MatchFace_first_maximum:
  "case MatchFace opts calc bbox_in of
     None \<Rightarrow>
       \<forall>j<length (face_bbox calc).
         \<not> fless (GetIOU (face_bbox calc ! j) bbox_in) (iou_threshold opts) \<longrightarrow>
         \<not> fless (Fin 0) (GetIOU (face_bbox calc ! j) bbox_in)
   | Some k \<Rightarrow>
       k < length (face_bbox calc)
       \<and> \<not> fless (GetIOU (face_bbox calc ! k) bbox_in) (iou_threshold opts)
       \<and> fless (Fin 0) (GetIOU (face_bbox calc ! k) bbox_in)
       \<and> (\<forall>j<length (face_bbox calc).
             \<not> fless (GetIOU (face_bbox calc ! j) bbox_in) (iou_threshold opts) \<longrightarrow>
             \<not> fless (GetIOU (face_bbox calc ! k) bbox_in) (GetIOU (face_bbox calc ! j) bbox_in))
       \<and> (\<forall>j<k.
             \<not> fless (GetIOU (face_bbox calc ! j) bbox_in) (iou_threshold opts)
             \<and> GetIOU (face_bbox calc ! j) bbox_in \<noteq> NaN \<longrightarrow>
             fless (GetIOU (face_bbox calc ! j) bbox_in) (GetIOU (face_bbox calc ! k) bbox_in))"
  using MatchFace_loop_spec[of "Fin 0" "iou_threshold opts" bbox_in "face_bbox calc" 0 None]
  by (auto simp: MatchFace_def split: option.splits)

lemma GetIOU_demo_disjoint: "GetIOU (demo_box 5 5 1 1) (demo_box 0 0 1 2) = Fin 0"
  by (simp add: GetIOU_def DetectionToRect_def rect_inter_def rect_union_def rect_area_def
      rect_empty_def Rect_zero_def fmax_def fmin_def fsub_def demo_box_def Let_def)

lemma GetIOU_demo_same: "GetIOU (demo_box 0 0 1 2) (demo_box 0 0 1 2) = Fin 1"
  by (simp add: GetIOU_def DetectionToRect_def rect_inter_def rect_union_def rect_area_def
      rect_empty_def Rect_zero_def fmax_def fmin_def fsub_def demo_box_def Let_def)

theorem MatchFace_first_maximum_witness:
  "MatchFace demo_opts
     (demo_calc\<lparr>face_bbox := [demo_box 5 5 1 1, demo_box 0 0 1 2, demo_box 0 0 1 2]\<rparr>)
     (demo_box 0 0 1 2) = Some 1
   \<and> \<not> fless (GetIOU (demo_box 0 0 1 2) (demo_box 0 0 1 2)) (iou_threshold demo_opts)
   \<and> fless (Fin 0) (GetIOU (demo_box 0 0 1 2) (demo_box 0 0 1 2))
   \<and> fless (GetIOU (demo_box 5 5 1 1) (demo_box 0 0 1 2)) (iou_threshold demo_opts)"
proof -
  have m: "MatchFace demo_opts
     (demo_calc\<lparr>face_bbox := [demo_box 5 5 1 1, demo_box 0 0 1 2, demo_box 0 0 1 2]\<rparr>)
     (demo_box 0 0 1 2) = Some 1"
    by (simp add: MatchFace_def GetIOU_demo_disjoint GetIOU_demo_same demo_opts_def)
  have thr: "iou_threshold demo_opts = Fin (1 / 2)"
    by (simp add: demo_opts_def)
  show ?thesis
    using MatchFace_first_maximum[where opts = demo_opts and bbox_in = "demo_box 0 0 1 2"
        and calc = "demo_calc\<lparr>face_bbox := [demo_box 5 5 1 1, demo_box 0 0 1 2, demo_box 0 0 1 2]\<rparr>"]
    by (simp add: m thr GetIOU_demo_disjoint GetIOU_demo_same)
qed

section \<open>The loops over the faces and the frames\<close>

lemma bind_err_Inr:
  "bind_err r f = Inr y \<longleftrightarrow> (\<exists>v. r = Inr v \<and> f v = Inr y)"
  by (cases r) (auto simp: bind_err_def)

lemma vec_at_Inr: "vec_at xs i = Inr v \<longleftrightarrow> i < length xs \<and> v = xs ! i"
  by (auto simp: vec_at_def)

lemma vec_set_Inr: "vec_set xs i v = Inr ys \<longleftrightarrow> i < length xs \<and> ys = xs[i := v]"
  by (auto simp: vec_set_def)

lemma map_get_map_insert_default [simp]: "map_get d p (map_insert q d m) = map_get d p m"
  by (simp add: map_get_def map_insert_def)

lemma kept_members_refl [simp]: "kept_members calc calc"
  by (simp add: kept_members_def)

lemma kept_members_trans: "kept_members a b \<Longrightarrow> kept_members b c \<Longrightarrow> kept_members a c"
  by (simp add: kept_members_def)

lemma IsActiveSpeaker_cases:
  "IsActiveSpeaker opts stats calc = (b, calc') \<Longrightarrow>
     (\<not> b \<and> calc' = calc)
     \<or> (b \<and> calc' = calc\<lparr>speaker_mean := mean_short_of opts stats,
                              speaker_variance := variance_of stats\<rparr>)"
  by (auto simp: IsActiveSpeaker_def Let_def split: if_splits)

lemma process_face_step:
  assumes "process_face opts st n k i d (calc, sl, fl) = Inr (calc', sl', fl')"
  shows "i < length st
     \<and> kept_members calc calc'
     \<and> face_bbox calc' = face_bbox calc
     \<and> meta_face_indices calc' = meta_face_indices calc
     \<and> (\<forall>p. map_get [] p (face_statistics calc') = map_get [] p (face_statistics calc))
     \<and> num_of_active_speaker sl' = num_of_active_speaker sl
     \<and> (cur_face_statistics fl i = None \<longrightarrow>
          cur_face_statistics fl' = (cur_face_statistics fl)(i \<mapsto>
            (case MatchFace opts calc d of
               None \<Rightarrow> [st ! i]
             | Some p \<Rightarrow> trim_history (variance_history opts)
                          (map_get [] p (face_statistics calc) @ [st ! i]))))"
proof (cases "MatchFace opts calc d")
  case None
  with assms show ?thesis
    apply (simp add: process_face_def Let_def bind_err_Inr vec_at_Inr vec_set_Inr split: prod.splits)
    apply (elim exE conjE)
    apply (drule IsActiveSpeaker_cases)
    apply (auto simp: map_insert_def map_get_def kept_members_def split: if_splits)
    done
next
  case (Some p)
  with assms show ?thesis
    apply (simp add: process_face_def Let_def bind_err_Inr vec_at_Inr vec_set_Inr split: prod.splits)
    apply (elim exE conjE)
    apply (drule IsActiveSpeaker_cases)
    apply (auto simp: map_insert_def map_get_def kept_members_def split: if_splits)
    done
qed

lemma history_after_cong:
  "face_bbox calc' = face_bbox calc \<Longrightarrow>
   \<forall>p. map_get [] p (face_statistics calc') = map_get [] p (face_statistics calc) \<Longrightarrow>
   history_after opts calc' d s = history_after opts calc d s"
  by (simp add: history_after_def MatchFace_def split: option.splits)

lemma faces_loop_spec:
  assumes "faces_loop opts st n k i ds (calc, sl, fl) = Inr (calc', sl', fl')"
  shows "kept_members calc calc'
     \<and> face_bbox calc' = face_bbox calc
     \<and> meta_face_indices calc' = meta_face_indices calc
     \<and> (\<forall>p. map_get [] p (face_statistics calc') = map_get [] p (face_statistics calc))
     \<and> num_of_active_speaker sl' = num_of_active_speaker sl
     \<and> (\<forall>j<length ds. i + j < length st)
     \<and> ((\<forall>j\<ge>i. cur_face_statistics fl j = None) \<longrightarrow>
          (\<forall>j. cur_face_statistics fl' j =
                 (if i \<le> j \<and> j < i + length ds
                  then Some (history_after opts calc (ds ! (j - i)) (st ! j))
                  else cur_face_statistics fl j)))"
  using assms
proof (induction ds arbitrary: i calc sl fl)
  case Nil
  then show ?case by simp
next
  case (Cons d rest)
  from Cons.prems obtain calc1 sl1 fl1 where
    step: "process_face opts st n k i d (calc, sl, fl) = Inr (calc1, sl1, fl1)"
    and loop: "faces_loop opts st n k (Suc i) rest (calc1, sl1, fl1) = Inr (calc', sl', fl')"
    by (auto simp: bind_err_Inr)
  note s = process_face_step[OF step]
  note l = Cons.IH[OF loop]
  have hist: "history_after opts calc1 b x = history_after opts calc b x" for b x
    using s by (intro history_after_cong) auto
  have 1: "kept_members calc calc'"
    using s l kept_members_trans by blast
  have 2: "\<forall>j<length (d # rest). i + j < length st"
    using s l by (auto simp: less_Suc_eq_0_disj)
  have 3: "\<forall>j. cur_face_statistics fl' j =
                 (if i \<le> j \<and> j < i + length (d # rest)
                  then Some (history_after opts calc ((d # rest) ! (j - i)) (st ! j))
                  else cur_face_statistics fl j)"
    if fresh: "\<forall>j\<ge>i. cur_face_statistics fl j = None"
  proof
    fix j
    from fresh s have fl1: "cur_face_statistics fl1 = (cur_face_statistics fl)(i \<mapsto> history_after opts calc d (st ! i))"
      by (simp add: history_after_def)
    with fresh have "\<forall>j\<ge>Suc i. cur_face_statistics fl1 j = None"
      by simp
    with l have r: "cur_face_statistics fl' j =
                 (if Suc i \<le> j \<and> j < Suc i + length rest
                  then Some (history_after opts calc1 (rest ! (j - Suc i)) (st ! j))
                  else cur_face_statistics fl1 j)"
      by blast
    show "cur_face_statistics fl' j =
                 (if i \<le> j \<and> j < i + length (d # rest)
                  then Some (history_after opts calc ((d # rest) ! (j - i)) (st ! j))
                  else cur_face_statistics fl j)"
    proof (cases "j = i")
      case True
      then show ?thesis using r fl1 by simp
    next
      case False
      then show ?thesis using r fl1 hist by (auto simp: nth_Cons' Suc_diff_le)
    qed
  qed
  show ?case
    using 1 2 3 s l by auto
qed

lemma process_frame_skip:
  "landmark_lists signal = [] \<or> detections signal = [] \<Longrightarrow>
     process_frame opts n k signal (calc, sl) = Inr (calc, sl)"
  by (simp add: process_frame_def)

lemma process_frame_spec:
  assumes "process_frame opts n k signal (calc, sl) = Inr (calc', sl')"
    and "landmark_lists signal \<noteq> []" and "detections signal \<noteq> []"
  shows "kept_members calc calc'
     \<and> face_bbox calc' = detections signal
     \<and> speaker_mean calc' = Fin 0 \<and> speaker_variance calc' = Fin 0
     \<and> length (detections signal)
          \<le> length (GetStatistics (frame_width calc) (frame_height calc) (landmark_lists signal))
     \<and> (\<forall>j. face_statistics calc' j =
            (if j < length (detections signal)
             then Some (history_after opts calc (detections signal ! j)
                    (GetStatistics (frame_width calc) (frame_height calc) (landmark_lists signal) ! j))
             else None))"
proof -
  let ?st = "GetStatistics (frame_width calc) (frame_height calc) (landmark_lists signal)"
  let ?fl = "\<lparr>cur_face_statistics = Map.empty, cur_meta_face_indices = [], cur_speaker_id = None\<rparr>"
  from assms obtain calc1 sl1 fl1 where
    loop: "faces_loop opts ?st n k 0 (detections signal) (calc, sl, ?fl) = Inr (calc1, sl1, fl1)"
    and calc': "calc' = calc1\<lparr>face_bbox := detections signal,
                                 face_statistics := cur_face_statistics fl1,
                                 speaker_mean := Fin 0,
                                 speaker_variance := Fin 0,
                                 meta_face_indices := cur_meta_face_indices fl1\<rparr>"
    by (auto simp: process_frame_def Let_def bind_err_Inr)
  note l = faces_loop_spec[OF loop]
  have len: "length (detections signal) \<le> length ?st"
  proof -
    from assms(3) have "length (detections signal) - 1 < length (detections signal)"
      by simp
    with l have "0 + (length (detections signal) - 1) < length ?st"
      by blast
    then show ?thesis by simp
  qed
  from l have "\<forall>j. cur_face_statistics fl1 j =
                 (if j < length (detections signal)
                  then Some (history_after opts calc (detections signal ! j) (?st ! j))
                  else None)"
    by simp
  with l len calc' show ?thesis
    by (simp add: kept_members_def)
qed

lemma length_trim_history: "length (trim_history vh d) \<le> vh"
  by (simp add: trim_history_eq)

lemma length_history_after:
  "length (history_after opts calc d s) \<le> max 1 (variance_history opts)"
proof (cases "MatchFace opts calc d")
  case None
  then show ?thesis by (simp add: history_after_def)
next
  case (Some p)
  then show ?thesis
    using length_trim_history[of "variance_history opts" "map_get [] p (face_statistics calc) @ [s]"]
    by (simp add: history_after_def)
qed

section \<open>The rolling statistics store\<close>

text \<open>
  Claim C9, as stated: after every per-frame update every history has length at most
  \<open>variance_history\<close>. It fails for \<open>variance_history = 0\<close>: a face without a match
  starts a history of one value, which is never trimmed.
\<close>

theorem history_length_counterexample:
  "process_frame (demo_opts\<lparr>variance_history := 0\<rparr>) 1 0
     \<lparr>landmark_lists = [demo_face 1 3], detections = [demo_box 0 0 1 1], timestamp = 0\<rparr>
     (demo_calc, scene_start) =
       Inr (demo_calc\<lparr>face_bbox := [demo_box 0 0 1 1], face_statistics := [0 \<mapsto> [Fin 3]],
              meta_face_indices := [0]\<rparr>,
            \<lparr>meta_faces = [0 \<mapsto> [Some 0]], meta_face_count = 1,
             num_of_active_speaker = [(0, 1)]\<rparr>)
   \<and> \<not> length [Fin 3] \<le> variance_history (demo_opts\<lparr>variance_history := 0\<rparr>)"
  by (simp add: eval_defs GetStatistics_one_face)

text \<open>
  Claim C9, amended: after every per-frame update that completes, the history of the face
  at each detection index has length at most the larger of \<open>variance_history\<close> and 1. On
  a match it is the matched previous history followed by the new value, with exactly the
  oldest elements dropped from the front so that at most \<open>variance_history\<close> remain, in
  their order; on no match it is the single new value. The new value is the entry of the
  statistics vector at the detection index.
\<close>

theorem history_update:
  assumes "process_frame opts n k signal (calc, sl) = Inr (calc', sl')"
    and "landmark_lists signal \<noteq> []"
    and "i < length (detections signal)"
  shows "\<exists>h s. face_statistics calc' i = Some h
     \<and> i < length (GetStatistics (frame_width calc) (frame_height calc) (landmark_lists signal))
     \<and> s = GetStatistics (frame_width calc) (frame_height calc) (landmark_lists signal) ! i
     \<and> length h \<le> max 1 (variance_history opts)
     \<and> h = (case MatchFace opts calc (detections signal ! i) of
                None \<Rightarrow> [s]
              | Some p \<Rightarrow>
                  drop (length (map_get [] p (face_statistics calc) @ [s]) - variance_history opts)
                       (map_get [] p (face_statistics calc) @ [s]))"
proof -
  from assms(3) have ne: "detections signal \<noteq> []"
    by auto
  note f = process_frame_spec[OF assms(1,2) ne]
  from f assms(3) have
    "face_statistics calc' i = Some (history_after opts calc (detections signal ! i)
        (GetStatistics (frame_width calc) (frame_height calc) (landmark_lists signal) ! i))"
    by simp
  moreover from f assms(3) have
    "i < length (GetStatistics (frame_width calc) (frame_height calc) (landmark_lists signal))"
    by simp
  ultimately show ?thesis
    using length_history_after[of opts calc "detections signal ! i"]
    by (simp add: history_after_def trim_history_eq split: option.splits)
qed

theorem history_update_witness:
  "process_frame (demo_opts\<lparr>variance_history := 2\<rparr>) 2 1
     \<lparr>landmark_lists = [demo_face 1 3], detections = [demo_box 0 0 1 1], timestamp = 1\<rparr>
     (demo_calc\<lparr>face_bbox := [demo_box 0 0 1 1], face_statistics := [0 \<mapsto> [Fin 1, Fin 2]],
              meta_face_indices := [0]\<rparr>,
      \<lparr>meta_faces = [0 \<mapsto> [Some 0, None]], meta_face_count = 1, num_of_active_speaker = []\<rparr>) =
       Inr (demo_calc\<lparr>face_bbox := [demo_box 0 0 1 1], face_statistics := [0 \<mapsto> [Fin 2, Fin 3]],
              meta_face_indices := [0]\<rparr>,
            \<lparr>meta_faces = [0 \<mapsto> [Some 0, Some 0]], meta_face_count = 1,
             num_of_active_speaker = [(0, 1)]\<rparr>)
   \<and> (\<exists>h. face_statistics
              (demo_calc\<lparr>face_bbox := [demo_box 0 0 1 1], face_statistics := [0 \<mapsto> [Fin 2, Fin 3]],
                 meta_face_indices := [0]\<rparr>) 0 = Some h
          \<and> length h \<le> max 1 (variance_history (demo_opts\<lparr>variance_history := 2\<rparr>)))"
proof -
  have e: "process_frame (demo_opts\<lparr>variance_history := 2\<rparr>) 2 1
     \<lparr>landmark_lists = [demo_face 1 3], detections = [demo_box 0 0 1 1], timestamp = 1\<rparr>
     (demo_calc\<lparr>face_bbox := [demo_box 0 0 1 1], face_statistics := [0 \<mapsto> [Fin 1, Fin 2]],
              meta_face_indices := [0]\<rparr>,
      \<lparr>meta_faces = [0 \<mapsto> [Some 0, None]], meta_face_count = 1, num_of_active_speaker = []\<rparr>) =
       Inr (demo_calc\<lparr>face_bbox := [demo_box 0 0 1 1], face_statistics := [0 \<mapsto> [Fin 2, Fin 3]],
              meta_face_indices := [0]\<rparr>,
            \<lparr>meta_faces = [0 \<mapsto> [Some 0, Some 0]], meta_face_count = 1,
             num_of_active_speaker = [(0, 1)]\<rparr>)"
    by (simp add: eval_defs GetStatistics_one_face GetIOU_def DetectionToRect_def rect_inter_def
        rect_union_def rect_area_def rect_empty_def Rect_zero_def fmax_def fmin_def)
  have l: "landmark_lists \<lparr>landmark_lists = [demo_face 1 3], detections = [demo_box 0 0 1 1],
              timestamp = 1\<rparr> \<noteq> []"
    by simp
  have i: "0 < length (detections \<lparr>landmark_lists = [demo_face 1 3],
              detections = [demo_box 0 0 1 1], timestamp = 1\<rparr>)"
    by simp
  from history_update[OF e l i] obtain h where
    "face_statistics
       (demo_calc\<lparr>face_bbox := [demo_box 0 0 1 1], face_statistics := [0 \<mapsto> [Fin 2, Fin 3]],
          meta_face_indices := [0]\<rparr>) 0 = Some h"
    and "length h \<le> max 1 (variance_history (demo_opts\<lparr>variance_history := 2\<rparr>))"
    by blast
  with e show ?thesis
    by blast
qed

section \<open>The frames of a window\<close>

lemma frames_loop_append:
  "frames_loop opts n k (xs @ ys) acc =
     bind_err (frames_loop opts n k xs acc) (frames_loop opts n (k + length xs) ys)"
proof (induction xs arbitrary: k acc)
  case Nil
  then show ?case by (simp add: bind_err_def)
next
  case (Cons x xs)
  show ?case
  proof (cases "process_frame opts n k x acc")
    case (Inl e)
    then show ?thesis by (simp add: bind_err_def)
  next
    case (Inr v)
    then show ?thesis using Cons.IH[of "Suc k" v] by (simp add: bind_err_def)
  qed
qed

lemma process_frame_ratchet:
  assumes "process_frame opts n k signal (calc, sl) = Inr (calc', sl')"
    and "speaker_mean calc = Fin 0" and "speaker_variance calc = Fin 0"
  shows "speaker_mean calc' = Fin 0 \<and> speaker_variance calc' = Fin 0"
proof (cases "landmark_lists signal = [] \<or> detections signal = []")
  case True
  with assms show ?thesis by (simp add: process_frame_skip)
next
  case False
  with process_frame_spec[OF assms(1)] show ?thesis by simp
qed

lemma process_frame_kept:
  assumes "process_frame opts n k signal (calc, sl) = Inr (calc', sl')"
  shows "kept_members calc calc'"
proof (cases "landmark_lists signal = [] \<or> detections signal = []")
  case True
  with assms show ?thesis by (simp add: process_frame_skip)
next
  case False
  with process_frame_spec[OF assms(1)] show ?thesis by simp
qed

lemma frames_loop_ratchet:
  assumes "frames_loop opts n k buff (calc, sl) = Inr (calc', sl')"
    and "speaker_mean calc = Fin 0" and "speaker_variance calc = Fin 0"
  shows "speaker_mean calc' = Fin 0 \<and> speaker_variance calc' = Fin 0"
  using assms
proof (induction buff arbitrary: k calc sl)
  case Nil
  then show ?case by simp
next
  case (Cons signal rest)
  from Cons.prems(1) obtain calc1 sl1 where
    step: "process_frame opts n k signal (calc, sl) = Inr (calc1, sl1)"
    and loop: "frames_loop opts n (Suc k) rest (calc1, sl1) = Inr (calc', sl')"
    by (auto simp: bind_err_Inr)
  from process_frame_ratchet[OF step Cons.prems(2,3)] Cons.IH[OF loop]
  show ?case by simp
qed

lemma frames_loop_kept:
  assumes "frames_loop opts n k buff (calc, sl) = Inr (calc', sl')"
  shows "kept_members calc calc'"
  using assms
proof (induction buff arbitrary: k calc sl)
  case Nil
  then show ?case by simp
next
  case (Cons signal rest)
  from Cons.prems(1) obtain calc1 sl1 where
    step: "process_frame opts n k signal (calc, sl) = Inr (calc1, sl1)"
    and loop: "frames_loop opts n (Suc k) rest (calc1, sl1) = Inr (calc', sl')"
    by (auto simp: bind_err_Inr)
  from process_frame_kept[OF step] Cons.IH[OF loop] kept_members_trans
  show ?case by blast
qed

lemma process_face_ratchet:
  assumes "process_face opts st n k i d (calc, sl, fl) = Inr (calc', sl', fl')"
    and "cur_face_statistics fl i = None"
  shows "(cur_speaker_id fl' = Some i
          \<and> speaker_mean calc' = mean_short_of opts (history_after opts calc d (st ! i))
          \<and> speaker_variance calc' = variance_of (history_after opts calc d (st ! i))
          \<and> (fless (speaker_mean calc) (speaker_mean calc')
              \<or> fless (speaker_variance calc) (speaker_variance calc')))
       \<or> (cur_speaker_id fl' = cur_speaker_id fl
          \<and> speaker_mean calc' = speaker_mean calc
          \<and> speaker_variance calc' = speaker_variance calc)"
proof (cases "MatchFace opts calc d")
  case None
  with assms show ?thesis
    apply (simp add: process_face_def Let_def bind_err_Inr vec_at_Inr vec_set_Inr history_after_def
        split: prod.splits)
    apply (elim exE conjE)
    apply (auto simp: map_insert_def map_get_def IsActiveSpeaker_def Let_def split: if_splits)
    done
next
  case (Some p)
  with assms show ?thesis
    apply (simp add: process_face_def Let_def bind_err_Inr vec_at_Inr vec_set_Inr history_after_def
        split: prod.splits)
    apply (elim exE conjE)
    apply (auto simp: map_insert_def map_get_def IsActiveSpeaker_def Let_def split: if_splits)
    done
qed


lemma replicate_two: "replicate 2 v = [v, v]"
  by (simp add: numeral_2_eq_2)

lemmas geometry_defs =
  GetIOU_def DetectionToRect_def rect_inter_def rect_union_def rect_area_def rect_empty_def
  Rect_zero_def fmax_def fmin_def

lemma frames_loop_same_face_twice:
  "frames_loop demo_opts 2 0
     ([\<lparr>landmark_lists = [demo_face 1 3], detections = [demo_box 0 0 1 1], timestamp = 0\<rparr>] @
      \<lparr>landmark_lists = [demo_face 1 3], detections = [demo_box 0 0 1 1], timestamp = 1\<rparr> # [])
     (demo_calc, scene_start) =
       Inr (demo_calc\<lparr>face_bbox := [demo_box 0 0 1 1], face_statistics := [0 \<mapsto> [Fin 3]],
              meta_face_indices := [0]\<rparr>,
            \<lparr>meta_faces = [0 \<mapsto> [Some 0, Some 0]], meta_face_count = 1,
             num_of_active_speaker = [(0, 2)]\<rparr>)"
  by (simp add: eval_defs geometry_defs GetStatistics_one_face replicate_two)

section \<open>The ratchet of the classifier\<close>

text \<open>
  Claim C3, as stated: the pair \<open>speaker_mean\<close>, \<open>speaker_variance\<close> is set to zero once
  per window evaluation and persists across the buffered frames, so a face classified in a
  later frame must exceed the incumbent. It fails on a window of two frames that show the
  same face with ratio 3 (history length 1): the face is counted as the speaker in both
  frames, although the classifier called on the state left by the first positive decision
  (mean 3, variance 0) rejects the same history.
\<close>

theorem ratchet_counterexample:
  "frames_loop demo_opts 2 0
     [\<lparr>landmark_lists = [demo_face 1 3], detections = [demo_box 0 0 1 1], timestamp = 0\<rparr>,
      \<lparr>landmark_lists = [demo_face 1 3], detections = [demo_box 0 0 1 1], timestamp = 1\<rparr>]
     (demo_calc, scene_start) =
       Inr (demo_calc\<lparr>face_bbox := [demo_box 0 0 1 1], face_statistics := [0 \<mapsto> [Fin 3]],
              meta_face_indices := [0]\<rparr>,
            \<lparr>meta_faces = [0 \<mapsto> [Some 0, Some 0]], meta_face_count = 1,
             num_of_active_speaker = [(0, 2)]\<rparr>)
   \<and> IsActiveSpeaker demo_opts [Fin 3] demo_calc
       = (True, demo_calc\<lparr>speaker_mean := Fin 3, speaker_variance := Fin 0\<rparr>)
   \<and> IsActiveSpeaker demo_opts [Fin 3] (demo_calc\<lparr>speaker_mean := Fin 3, speaker_variance := Fin 0\<rparr>)
       = (False, demo_calc\<lparr>speaker_mean := Fin 3, speaker_variance := Fin 0\<rparr>)"
  using frames_loop_same_face_twice by (simp add: eval_defs)

text \<open>
  Claim C3, amended: the pair is set to zero at the end of every processed frame, so (being
  zero when the window evaluation starts, as it is from construction on) it is zero when
  the loop reaches any frame of the window; nothing carries over from one frame to the
  next. Within a frame each step of the loop over the faces either classifies the face as
  speaking, and then the pair becomes that face's \<open>mean_short\<close> and variance, one of which
  strictly exceeds the incumbent's, or leaves the pair and the frame's speaker unchanged.
\<close>

theorem ratchet_zero_at_every_frame:
  assumes "frames_loop opts n k (pre @ signal # post) (calc, sl) = Inr r"
    and "speaker_mean calc = Fin 0" and "speaker_variance calc = Fin 0"
  shows "(\<exists>calc_k sl_k. frames_loop opts n k pre (calc, sl) = Inr (calc_k, sl_k)
            \<and> speaker_mean calc_k = Fin 0 \<and> speaker_variance calc_k = Fin 0)
       \<and> (\<forall>st i d c sl1 fl c' sl1' fl'.
            process_face opts st n (k + length pre) i d (c, sl1, fl) = Inr (c', sl1', fl')
            \<and> cur_face_statistics fl i = None \<longrightarrow>
              (cur_speaker_id fl' = Some i
               \<and> speaker_mean c' = mean_short_of opts (the (cur_face_statistics fl' i))
               \<and> speaker_variance c' = variance_of (the (cur_face_statistics fl' i))
               \<and> (fless (speaker_mean c) (speaker_mean c')
                   \<or> fless (speaker_variance c) (speaker_variance c')))
              \<or> (cur_speaker_id fl' = cur_speaker_id fl
                 \<and> speaker_mean c' = speaker_mean c
                 \<and> speaker_variance c' = speaker_variance c))"
proof -
  from assms(1) obtain calc_k sl_k where
    pre: "frames_loop opts n k pre (calc, sl) = Inr (calc_k, sl_k)"
    by (auto simp: frames_loop_append bind_err_Inr)
  from frames_loop_ratchet[OF pre assms(2,3)] pre
  have 1: "\<exists>calc_k sl_k. frames_loop opts n k pre (calc, sl) = Inr (calc_k, sl_k)
            \<and> speaker_mean calc_k = Fin 0 \<and> speaker_variance calc_k = Fin 0"
    by blast
  have 2: "(cur_speaker_id fl' = Some i
               \<and> speaker_mean c' = mean_short_of opts (the (cur_face_statistics fl' i))
               \<and> speaker_variance c' = variance_of (the (cur_face_statistics fl' i))
               \<and> (fless (speaker_mean c) (speaker_mean c')
                   \<or> fless (speaker_variance c) (speaker_variance c')))
              \<or> (cur_speaker_id fl' = cur_speaker_id fl
                 \<and> speaker_mean c' = speaker_mean c
                 \<and> speaker_variance c' = speaker_variance c)"
    if "process_face opts st n (k + length pre) i d (c, sl1, fl) = Inr (c', sl1', fl')"
      and "cur_face_statistics fl i = None"
    for st i d c sl1 fl c' sl1' fl'
  proof -
    from process_face_step[OF that(1)] that(2)
    have "the (cur_face_statistics fl' i) = history_after opts c d (st ! i)"
      by (simp add: history_after_def)
    with process_face_ratchet[OF that] show ?thesis
      by simp
  qed
  from 1 2 show ?thesis
    by blast
qed


theorem ratchet_zero_at_every_frame_witness:
  "speaker_mean demo_calc = Fin 0 \<and> speaker_variance demo_calc = Fin 0
   \<and> (\<exists>calc_k sl_k.
         frames_loop demo_opts 2 0
           [\<lparr>landmark_lists = [demo_face 1 3], detections = [demo_box 0 0 1 1], timestamp = 0\<rparr>]
           (demo_calc, scene_start) = Inr (calc_k, sl_k)
         \<and> speaker_mean calc_k = Fin 0 \<and> speaker_variance calc_k = Fin 0)"
proof -
  have z: "speaker_mean demo_calc = Fin 0" "speaker_variance demo_calc = Fin 0"
    by (simp_all add: demo_calc_def Open_calc_def)
  from ratchet_zero_at_every_frame[OF frames_loop_same_face_twice z] z show ?thesis
    by blast
qed

section \<open>The window evaluation as a whole\<close>













lemma roi_loop_shot:
  "roi_loop buff k row dsd cc = Inr (dsd', cc') \<Longrightarrow>
     shot_out cc' = shot_out cc \<and> has_shot_tag cc' = has_shot_tag cc"
proof (induction buff arbitrary: k dsd cc)
  case Nil
  then show ?case by simp
next
  case (Cons signal rest)
  from Cons.prems obtain face_id where f: "vec_at row k = Inr face_id"
    by (auto simp: bind_err_Inr)
  show ?case
  proof (cases face_id)
    case None
    with Cons.prems f obtain d where
      "roi_loop rest (Suc k) row dsd (cc\<lparr>roi_out := roi_out cc @ [([d], timestamp signal)]\<rparr>)
         = Inr (dsd', cc')"
      by (auto simp: bind_err_Inr)
    from Cons.IH[OF this] show ?thesis by simp
  next
    case (Some a)
    with Cons.prems f obtain d dsd1 where
      "roi_loop rest (Suc k) row dsd1 (cc\<lparr>roi_out := roi_out cc @ [([d], timestamp signal)]\<rparr>)
         = Inr (dsd', cc')"
      by (auto simp: bind_err_Inr)
    from Cons.IH[OF this] show ?thesis by simp
  qed
qed

lemma Transmit_tag [simp]: "has_shot_tag (Transmit opts calc cc b ts) = has_shot_tag cc"
  by (simp add: Transmit_def Let_def)

text \<open>The two outcomes of a window evaluation.\<close>

lemma ProcessScene_cases:
  assumes "ProcessScene opts calc cc = Inr (calc'', cc'')"
  obtains
    (none) calc1 sl where
      "frames_loop opts (length (signal_buff calc)) 0 (signal_buff calc) (calc, scene_start)
         = Inr (calc1, sl)"
      "find_dominate (num_of_active_speaker sl) None 0 = None"
      "calc'' = clear_window (calc1\<lparr>pre_dominate_speaker_id := None,
                                     pre_dominate_speaker_detection := []\<rparr>)"
      "has_shot_tag cc'' = has_shot_tag cc"
      "has_shot_tag cc \<and> output_shot_boundary opts \<Longrightarrow>
         signal_buff calc \<noteq> []
         \<and> shot_out cc'' = shot_out (Transmit opts calc cc False (timestamp (signal_buff calc ! 0)))"
      "\<not> (has_shot_tag cc \<and> output_shot_boundary opts) \<Longrightarrow> shot_out cc'' = shot_out cc"
  | (some) calc1 sl d dsd cc1 shot_ts dsd' where
      "frames_loop opts (length (signal_buff calc)) 0 (signal_buff calc) (calc, scene_start)
         = Inr (calc1, sl)"
      "find_dominate (num_of_active_speaker sl) None 0 = Some d"
      "first_detection (signal_buff calc) (map_get [] d (meta_faces sl)) = Inr dsd"
      "calc'' = clear_window (calc1\<lparr>last_shot_timestamp := shot_ts,
                                     pre_dominate_speaker_id := Some d,
                                     pre_dominate_speaker_detection := [dsd' ! 0]\<rparr>)"
      "has_shot_tag cc'' = has_shot_tag cc"
      "shot_out cc'' = shot_out cc1"
      "has_shot_tag cc \<and> output_shot_boundary opts \<Longrightarrow>
         signal_buff calc \<noteq> []
         \<and> shot_signal opts calc cc dsd (timestamp (signal_buff calc ! 0)) = Inr (cc1, shot_ts)"
      "\<not> (has_shot_tag cc \<and> output_shot_boundary opts) \<Longrightarrow>
         cc1 = cc \<and> shot_ts = last_shot_timestamp calc"
proof -
  from assms obtain calc1 sl where
    loop: "frames_loop opts (length (signal_buff calc)) 0 (signal_buff calc) (calc, scene_start)
         = Inr (calc1, sl)"
    by (auto simp: ProcessScene_def scene_start_def bind_err_Inr)
  note kept = frames_loop_kept[OF loop, unfolded kept_members_def]
  have sig: "shot_signal opts calc1 c x t = shot_signal opts calc c x t" for c x t
    using kept by (simp add: shot_signal_def Transmit_def Let_def cong: if_cong)
  show ?thesis
  proof (cases "find_dominate (num_of_active_speaker sl) None 0")
    case None
    with assms loop kept show ?thesis
      by (intro none[of calc1 sl])
        (auto simp: ProcessScene_def scene_start_def bind_err_Inr vec_at_Inr Transmit_def Let_def
          split: if_splits)
  next
    case (Some d)
    let ?row = "map_get [] d (meta_faces sl)"
    let ?on = "has_shot_tag cc \<and> output_shot_boundary opts"
    from assms loop Some have
      "bind_err (first_detection (signal_buff calc1) ?row) (\<lambda>dsd.
         bind_err
           (if ?on
            then bind_err (vec_at (signal_buff calc1) 0) (\<lambda>signal0.
                   shot_signal opts calc1 cc dsd (timestamp signal0))
            else Inr (cc, last_shot_timestamp calc1))
           (\<lambda>(cc1, last_shot).
         bind_err (roi_loop (signal_buff calc1) 0 ?row dsd cc1) (\<lambda>(dsd', cc2).
         bind_err (vec_at dsd' 0) (\<lambda>d'.
           Inr (clear_window
                  (calc1\<lparr>last_shot_timestamp := last_shot,
                         pre_dominate_speaker_id := Some d,
                         pre_dominate_speaker_detection := [d']\<rparr>),
                cc2))))) = Inr (calc'', cc'')"
      by (simp add: ProcessScene_def scene_start_def bind_err_def Let_def)
    then obtain dsd x where
      fd: "first_detection (signal_buff calc1) ?row = Inr dsd"
      and ss: "(if ?on
            then bind_err (vec_at (signal_buff calc1) 0) (\<lambda>signal0.
                   shot_signal opts calc1 cc dsd (timestamp signal0))
            else Inr (cc, last_shot_timestamp calc1)) = Inr x"
      and r1: "(case x of (cc1, last_shot) \<Rightarrow>
         bind_err (roi_loop (signal_buff calc1) 0 ?row dsd cc1) (\<lambda>(dsd', cc2).
         bind_err (vec_at dsd' 0) (\<lambda>d'.
           Inr (clear_window
                  (calc1\<lparr>last_shot_timestamp := last_shot,
                         pre_dominate_speaker_id := Some d,
                         pre_dominate_speaker_detection := [d']\<rparr>),
                cc2)))) = Inr (calc'', cc'')"
      unfolding bind_err_Inr by blast
    obtain cc1 shot_ts where x: "x = (cc1, shot_ts)"
      by (cases x)
    from r1 x obtain dsd' cc2 where
      roi: "roi_loop (signal_buff calc1) 0 ?row dsd cc1 = Inr (dsd', cc2)"
      and res: "calc'' = clear_window (calc1\<lparr>last_shot_timestamp := shot_ts,
                                     pre_dominate_speaker_id := Some d,
                                     pre_dominate_speaker_detection := [dsd' ! 0]\<rparr>)"
               "cc'' = cc2"
      by (auto simp: bind_err_Inr vec_at_Inr)
    note r = roi_loop_shot[OF roi]
    have on: "signal_buff calc \<noteq> []
              \<and> shot_signal opts calc cc dsd (timestamp (signal_buff calc ! 0)) = Inr (cc1, shot_ts)"
      if ?on
      using ss x that kept sig by (auto simp: bind_err_Inr vec_at_Inr)
    have off: "cc1 = cc \<and> shot_ts = last_shot_timestamp calc" if "\<not> ?on"
      using ss x that kept by auto
    have tag: "has_shot_tag cc1 = has_shot_tag cc"
    proof (cases ?on)
      case True
      with on show ?thesis
        by (auto simp: shot_signal_def bind_err_Inr Let_def split: if_splits)
    next
      case False
      with off show ?thesis by simp
    qed
    from fd kept have fd': "first_detection (signal_buff calc) ?row = Inr dsd"
      by simp
    show ?thesis
    proof (rule some[OF loop Some fd' res(1)])
      show "has_shot_tag cc'' = has_shot_tag cc"
        using r tag res(2) by simp
      show "shot_out cc'' = shot_out cc1"
        using r res(2) by simp
    qed (use on off in simp_all)
  qed
qed

text \<open>
  The pair \<open>speaker_mean\<close>, \<open>speaker_variance\<close> is zero from construction on, between
  any two window evaluations.
\<close>

lemma ProcessScene_ratchet:
  assumes "ProcessScene opts calc cc = Inr (calc', cc')"
    and "speaker_mean calc = Fin 0" and "speaker_variance calc = Fin 0"
  shows "speaker_mean calc' = Fin 0 \<and> speaker_variance calc' = Fin 0"
  using assms(1)
proof (cases rule: ProcessScene_cases)
  case (none calc1 sl)
  with frames_loop_ratchet[OF none(1) assms(2,3)] show ?thesis
    by (simp add: clear_window_def)
next
  case (some calc1 sl d dsd cc1 shot_ts dsd')
  with frames_loop_ratchet[OF some(1) assms(2,3)] show ?thesis
    by (simp add: clear_window_def)
qed

lemma Process_ratchet:
  assumes "Process opts inp (calc, cc) = Inr (calc', cc')"
    and "speaker_mean calc = Fin 0" and "speaker_variance calc = Fin 0"
  shows "speaker_mean calc' = Fin 0 \<and> speaker_variance calc' = Fin 0"
proof -
  from assms(1) obtain w h where v: "in_video inp = Some (w, h)"
    by (cases "in_video inp") (auto simp: Process_def)
  define calc1 where "calc1 = (if frame_width calc < 0 then calc\<lparr>frame_width := w, frame_height := h\<rparr>
                        else calc)"
  define signal where "signal = (case (in_landmarks inp, in_detections inp) of
                           (Some ls, Some ds) \<Rightarrow>
                             \<lparr>landmark_lists = ls, detections = ds, timestamp = in_timestamp inp\<rparr>
                         | _ \<Rightarrow>
                             \<lparr>landmark_lists = [], detections = [], timestamp = in_timestamp inp\<rparr>)"
  define calc2 where "calc2 = calc1\<lparr>signal_buff := signal_buff calc1 @ [signal]\<rparr>"
  from assms(2,3) have z: "speaker_mean calc2 = Fin 0" "speaker_variance calc2 = Fin 0"
    by (simp_all add: calc2_def calc1_def)
  from v have "Process opts inp (calc, cc) =
      (if signal_buff calc2 \<noteq> [] \<and>
          min_speaker_span opts \<le> in_timestamp inp - timestamp (signal_buff calc2 ! 0)
       then ProcessScene opts calc2 cc else Inr (calc2, cc))"
    by (simp add: Process_def Let_def calc2_def calc1_def signal_def)
  with assms(1) have "ProcessScene opts calc2 cc = Inr (calc', cc') \<or> (calc', cc') = (calc2, cc)"
    by (auto split: if_splits)
  then show ?thesis
  proof
    assume "ProcessScene opts calc2 cc = Inr (calc', cc')"
    from ProcessScene_ratchet[OF this z] show ?thesis .
  next
    assume "(calc', cc') = (calc2, cc)"
    with z show ?thesis by simp
  qed
qed

subsection \<open>A window with two faces that speak once each\<close>

lemma GetIOU_demo_far: "GetIOU (demo_box 0 0 1 1) (demo_box 5 5 1 1) = Fin 0"
  by (simp add: geometry_defs demo_box_def fsub_def Let_def)

lemma frames_loop_two_faces:
  "n = 2 \<Longrightarrow> frames_loop demo_opts n 0
     [demo_frame 1000000 (demo_box 0 0 1 1), demo_frame 1000002 (demo_box 5 5 1 1)]
     (demo_calc\<lparr>signal_buff := [demo_frame 1000000 (demo_box 0 0 1 1),
                                 demo_frame 1000002 (demo_box 5 5 1 1)]\<rparr>, scene_start) =
       Inr (demo_calc\<lparr>signal_buff := [demo_frame 1000000 (demo_box 0 0 1 1),
                                 demo_frame 1000002 (demo_box 5 5 1 1)],
              face_bbox := [demo_box 5 5 1 1], face_statistics := [0 \<mapsto> [Fin 3]],
              meta_face_indices := [1]\<rparr>,
            \<lparr>meta_faces = [0 \<mapsto> [Some 0, None], 1 \<mapsto> [None, Some 0]], meta_face_count = 2,
             num_of_active_speaker = [(0, 1), (1, 1)]\<rparr>)"
  by (simp add: process_frame_def process_face_def demo_calc_def Open_calc_def demo_opts_def
  scene_start_def MatchFace_def bind_err_def vec_at_def vec_set_def map_insert_def map_get_def
  IsActiveSpeaker_def mean_short_of_def variance_of_def mean_of_def float_of_nat_def fpow2_def
  fsub_def sum_from_eq trim_history_eq count_speaker_def Let_def demo_frame_def GetStatistics_one_face GetIOU_demo_far
      replicate_two)

lemma ProcessScene_two_faces:
  "ProcessScene demo_opts
     (demo_calc\<lparr>signal_buff := [demo_frame 1000000 (demo_box 0 0 1 1),
                                 demo_frame 1000002 (demo_box 5 5 1 1)]\<rparr>) demo_cc =
     Inr (demo_calc\<lparr>last_shot_timestamp := 1000000, pre_dominate_speaker_id := Some 0,
                     pre_dominate_speaker_detection := [demo_box 0 0 1 1]\<rparr>,
          \<lparr>has_shot_tag = True, shot_out = [(False, 1000000)],
           roi_out = [([demo_box 0 0 1 1], 1000000), ([demo_box 0 0 1 1], 1000002)]\<rparr>)"
  apply (simp add: ProcessScene_def scene_start_def[symmetric] frames_loop_two_faces
      del: frames_loop.simps)
  apply (simp add: bind_err_def map_get_def shot_signal_def
      Transmit_def Seconds_def vec_at_def vec_set_def clear_window_def demo_cc_def demo_frame_def
      demo_calc_def Open_calc_def demo_opts_def Let_def)
  done

lemma fle_not_fless: "fle a b \<Longrightarrow> \<not> fless b a"
  by (cases a; cases b) auto

lemma clear_window_kept [simp]:
  "pre_dominate_speaker_id (clear_window c) = pre_dominate_speaker_id c"
  "pre_dominate_speaker_detection (clear_window c) = pre_dominate_speaker_detection c"
  "last_shot_timestamp (clear_window c) = last_shot_timestamp c"
  "frame_width (clear_window c) = frame_width c"
  "frame_height (clear_window c) = frame_height c"
  "signal_buff (clear_window c) = []"
  "speaker_mean (clear_window c) = speaker_mean c"
  "speaker_variance (clear_window c) = speaker_variance c"
  by (simp_all add: clear_window_def)

section \<open>The dominant speaker\<close>



section \<open>The last-shot timestamp\<close>

text \<open>
  Claim C10. The shot-boundary block runs when the stream is connected and enabled. When
  the window has a dominant speaker and either there was no previous dominant speaker or
  the IOU of the previous dominant box and the current one (the dominant speaker's first
  box in the window) is at most \<open>iou_threshold\<close>, the last-shot timestamp becomes the
  timestamp of the first buffered frame, also when the debounce keeps the packet from being
  \<open>True\<close>: the packet added is \<open>True\<close> only if the first frame is not less than
  \<open>min_shot_span\<close> after the old last-shot timestamp.
\<close>

theorem last_shot_updated_on_candidate:
  assumes "ProcessScene opts calc cc = Inr (calc', cc')"
    and "has_shot_tag cc" and "output_shot_boundary opts"
    and "frames_loop opts (length (signal_buff calc)) 0 (signal_buff calc) (calc, scene_start)
           = Inr (calc1, sl)"
    and "find_dominate (num_of_active_speaker sl) None 0 = Some d"
    and "first_detection (signal_buff calc) (map_get [] d (meta_faces sl)) = Inr dsd"
    and "pre_dominate_speaker_id calc = None
         \<or> (pre_dominate_speaker_detection calc \<noteq> []
            \<and> fle (GetIOU (pre_dominate_speaker_detection calc ! 0) (dsd ! 0)) (iou_threshold opts))"
  shows "last_shot_timestamp calc' = timestamp (signal_buff calc ! 0)
     \<and> shot_out cc' = shot_out cc @
          (if fless (Seconds (timestamp (signal_buff calc ! 0) - last_shot_timestamp calc))
                (min_shot_span opts)
           then (if output_shot_boundary_only_on_change opts then []
                 else [(False, timestamp (signal_buff calc ! 0))])
           else [(True, timestamp (signal_buff calc ! 0))])"
  using assms(1)
proof (cases rule: ProcessScene_cases)
  case (none calc1' sl')
  with assms(4,5) show ?thesis by simp
next
  case (some calc1' sl' d' dsd0 cc1 shot_ts dsd')
  from some(1,2,3) assms(4,5,6) have eq: "d' = d" "dsd0 = dsd"
    by simp_all
  let ?ts0 = "timestamp (signal_buff calc ! 0)"
  from some(7) assms(2,3) eq have ss: "shot_signal opts calc cc dsd ?ts0 = Inr (cc1, shot_ts)"
    by simp
  have "cc1 = Transmit opts calc cc True ?ts0 \<and> shot_ts = ?ts0"
    using assms(7)
  proof
    assume "pre_dominate_speaker_id calc = None"
    with ss assms(2,3) show ?thesis
      by (auto simp: shot_signal_def)
  next
    assume a: "pre_dominate_speaker_detection calc \<noteq> []
            \<and> fle (GetIOU (pre_dominate_speaker_detection calc ! 0) (dsd ! 0)) (iou_threshold opts)"
    then have "\<not> fless (iou_threshold opts) (GetIOU (pre_dominate_speaker_detection calc ! 0) (dsd ! 0))"
      using fle_not_fless by blast
    with ss a assms(2,3) show ?thesis
      by (auto simp: shot_signal_def bind_err_Inr vec_at_Inr Let_def split: if_splits)
  qed
  with some(4,6) show ?thesis
    by (simp add: Transmit_def Let_def)
qed

theorem last_shot_updated_on_candidate_witness:
  "has_shot_tag demo_cc \<and> output_shot_boundary demo_opts
   \<and> pre_dominate_speaker_id
        (demo_calc\<lparr>signal_buff := [demo_frame 1000000 (demo_box 0 0 1 1),
                                    demo_frame 1000002 (demo_box 5 5 1 1)]\<rparr>) = None
   \<and> fless (Seconds (1000000 - 0)) (min_shot_span demo_opts)
   \<and> last_shot_timestamp (demo_calc\<lparr>last_shot_timestamp := 1000000, pre_dominate_speaker_id := Some 0,
                     pre_dominate_speaker_detection := [demo_box 0 0 1 1]\<rparr>) = 1000000
   \<and> shot_out \<lparr>has_shot_tag = True, shot_out = [(False, 1000000)],
           roi_out = [([demo_box 0 0 1 1], 1000000), ([demo_box 0 0 1 1], 1000002)]\<rparr>
        = shot_out demo_cc @ [(False, 1000000)]"
proof -
  let ?calc = "demo_calc\<lparr>signal_buff := [demo_frame 1000000 (demo_box 0 0 1 1),
                                    demo_frame 1000002 (demo_box 5 5 1 1)]\<rparr>"
  let ?sl = "\<lparr>meta_faces = [0 \<mapsto> [Some 0, None], 1 \<mapsto> [None, Some 0]], meta_face_count = 2,
             num_of_active_speaker = [(0, 1), (1, 1)]\<rparr>"
  have t: "has_shot_tag demo_cc" and o: "output_shot_boundary demo_opts"
    by (simp_all add: demo_cc_def demo_opts_def)
  have l: "frames_loop demo_opts (length (signal_buff ?calc)) 0 (signal_buff ?calc) (?calc, scene_start)
      = Inr (demo_calc\<lparr>signal_buff := [demo_frame 1000000 (demo_box 0 0 1 1),
                                 demo_frame 1000002 (demo_box 5 5 1 1)],
              face_bbox := [demo_box 5 5 1 1], face_statistics := [0 \<mapsto> [Fin 3]],
              meta_face_indices := [1]\<rparr>, ?sl)"
    by (simp add: frames_loop_two_faces del: frames_loop.simps)
  have f: "find_dominate (num_of_active_speaker ?sl) None 0 = Some 0"
    by simp
  have d: "first_detection (signal_buff ?calc) (map_get [] 0 (meta_faces ?sl)) = Inr [demo_box 0 0 1 1]"
    by (simp add: map_get_def demo_frame_def bind_err_def vec_at_def)
  have p: "pre_dominate_speaker_id ?calc = None
         \<or> (pre_dominate_speaker_detection ?calc \<noteq> []
            \<and> fle (GetIOU (pre_dominate_speaker_detection ?calc ! 0) ([demo_box 0 0 1 1] ! 0))
                 (iou_threshold demo_opts))"
    by (simp add: demo_calc_def Open_calc_def)
  from last_shot_updated_on_candidate[OF ProcessScene_two_faces t o l f d p] t o
  show ?thesis
    by (simp add: demo_calc_def Open_calc_def demo_frame_def demo_opts_def demo_cc_def Seconds_def)
qed

section \<open>The debounce of the shot-boundary signal\<close>

lemma fless_Seconds_mono:
  "a \<le> b \<Longrightarrow> \<not> fless (Seconds a) gap \<Longrightarrow> \<not> fless (Seconds b) gap"
  by (cases gap) (auto simp: Seconds_def)

lemma Transmit_out:
  "shot_out (Transmit opts calc cc b ts) =
     shot_out cc @
       (if b \<and> \<not> fless (Seconds (ts - last_shot_timestamp calc)) (min_shot_span opts)
        then [(True, ts)]
        else if output_shot_boundary_only_on_change opts then [] else [(False, ts)])"
  by (simp add: Transmit_def Let_def)

lemma ProcessScene_shot_summary:
  assumes "ProcessScene opts calc cc = Inr (calc', cc')"
  shows "signal_buff calc' = []
     \<and> (\<exists>b. last_shot_timestamp calc'
              = (if b then timestamp (signal_buff calc ! 0) else last_shot_timestamp calc)
          \<and> (b \<longrightarrow> signal_buff calc \<noteq> [])
          \<and> (shot_out cc' = shot_out cc
              \<or> (signal_buff calc \<noteq> []
                  \<and> shot_out cc' = shot_out (Transmit opts calc cc b (timestamp (signal_buff calc ! 0))))))"
  using assms
proof (cases rule: ProcessScene_cases)
  case (none calc1 sl)
  note k = frames_loop_kept[OF none(1), unfolded kept_members_def]
  show ?thesis
  proof (cases "has_shot_tag cc \<and> output_shot_boundary opts")
    case True
    with none k show ?thesis
      by (intro conjI exI[of _ False]) simp_all
  next
    case False
    with none k show ?thesis
      by (intro conjI exI[of _ False]) simp_all
  qed
next
  case (some calc1 sl d dsd cc1 shot_ts dsd')
  note k = frames_loop_kept[OF some(1), unfolded kept_members_def]
  let ?ts0 = "timestamp (signal_buff calc ! 0)"
  show ?thesis
  proof (cases "has_shot_tag cc \<and> output_shot_boundary opts")
    case False
    with some k show ?thesis
      by (intro conjI exI[of _ False]) simp_all
  next
    case True
    with some have ne: "signal_buff calc \<noteq> []"
      and ss: "shot_signal opts calc cc dsd ?ts0 = Inr (cc1, shot_ts)"
      by simp_all
    from ss True have
      "\<exists>b. shot_ts = (if b then ?ts0 else last_shot_timestamp calc)
          \<and> (cc1 = cc \<or> cc1 = Transmit opts calc cc b ?ts0)"
    proof (cases "pre_dominate_speaker_id calc = None")
      case pn: True
      with ss True show ?thesis
        by (intro exI[of _ True]) (auto simp: shot_signal_def)
    next
      case ps: False
      show ?thesis
      proof (cases "pre_dominate_speaker_detection calc = []")
        case True
        with ss ps \<open>has_shot_tag cc \<and> output_shot_boundary opts\<close> show ?thesis
          by (intro exI[of _ False]) (auto simp: shot_signal_def)
      next
        case False
        with ss ps \<open>has_shot_tag cc \<and> output_shot_boundary opts\<close> show ?thesis
          by (intro exI[of _ "\<not> fless (iou_threshold opts)
                 (GetIOU (pre_dominate_speaker_detection calc ! 0) (dsd ! 0))"])
            (auto simp: shot_signal_def bind_err_Inr vec_at_Inr Let_def)
      qed
    qed
    then obtain b where "shot_ts = (if b then ?ts0 else last_shot_timestamp calc)"
      and "cc1 = cc \<or> cc1 = Transmit opts calc cc b ?ts0"
      by blast
    with some(4,6) ne show ?thesis
      by (intro conjI exI[of _ b]) auto
  qed
qed

lemma ProcessScene_shot_inv:
  assumes "ProcessScene opts calc cc = Inr (calc', cc')"
    and "shot_inv opts hi (calc, cc)"
  shows "shot_inv opts hi (calc', cc')"
proof -
  let ?ts0 = "timestamp (signal_buff calc ! 0)"
  let ?gap = "min_shot_span opts"
  from ProcessScene_shot_summary[OF assms(1)] obtain b where
    buff: "signal_buff calc' = []"
    and ls: "last_shot_timestamp calc' = (if b then ?ts0 else last_shot_timestamp calc)"
    and bne: "b \<longrightarrow> signal_buff calc \<noteq> []"
    and out: "shot_out cc' = shot_out cc
              \<or> (signal_buff calc \<noteq> [] \<and> shot_out cc' = shot_out (Transmit opts calc cc b ?ts0))"
    by blast
  from assms(2) have
    A: "sorted_wrt (debounced ?gap) (shot_out cc)"
    and B: "\<forall>p \<in> set (shot_out cc). fst p \<longrightarrow> snd p \<le> last_shot_timestamp calc"
    and C: "\<forall>p \<in> set (shot_out cc). fst p \<longrightarrow> (\<forall>s \<in> set (signal_buff calc). snd p < timestamp s)"
    and D: "\<forall>p \<in> set (shot_out cc). fst p \<longrightarrow> snd p \<le> hi"
    and D': "\<forall>s \<in> set (signal_buff calc). timestamp s \<le> hi"
    and E: "output_shot_boundary_only_on_change opts \<longrightarrow> (\<forall>p \<in> set (shot_out cc). fst p)"
    by (simp_all add: shot_inv_def)
  have first: "\<forall>p \<in> set (shot_out cc). fst p \<longrightarrow> snd p < ?ts0" "?ts0 \<le> hi"
    if "signal_buff calc \<noteq> []"
  proof -
    from that have "signal_buff calc ! 0 \<in> set (signal_buff calc)"
      by simp
    with C D' show "\<forall>p \<in> set (shot_out cc). fst p \<longrightarrow> snd p < ?ts0" "?ts0 \<le> hi"
      by blast+
  qed
  from out show ?thesis
  proof
    assume same: "shot_out cc' = shot_out cc"
    have "snd p \<le> last_shot_timestamp calc'" if "p \<in> set (shot_out cc)" "fst p" for p
      using that B ls bne first(1) by (cases b) (auto simp: less_imp_le)
    then have "\<forall>p \<in> set (shot_out cc). fst p \<longrightarrow> snd p \<le> last_shot_timestamp calc'"
      by blast
    with same buff A D E show ?thesis
      by (simp add: shot_inv_def)
  next
    assume "signal_buff calc \<noteq> [] \<and> shot_out cc' = shot_out (Transmit opts calc cc b ?ts0)"
    then have ne: "signal_buff calc \<noteq> []"
      and o: "shot_out cc' = shot_out (Transmit opts calc cc b ?ts0)"
      by simp_all
    note f = first[OF ne]
    show ?thesis
    proof (cases "b \<and> \<not> fless (Seconds (?ts0 - last_shot_timestamp calc)) ?gap")
      case True
      with o have o': "shot_out cc' = shot_out cc @ [(True, ?ts0)]"
        by (simp add: Transmit_out)
      have "debounced ?gap p (True, ?ts0)" if "p \<in> set (shot_out cc)" for p
      proof (cases "fst p")
        case False
        then show ?thesis by (simp add: debounced_def)
      next
        case t: True
        with that f B have "snd p < ?ts0" "snd p \<le> last_shot_timestamp calc"
          by auto
        then have "?ts0 - last_shot_timestamp calc \<le> ?ts0 - snd p"
          by simp
        from fless_Seconds_mono[OF this] True \<open>snd p < ?ts0\<close> show ?thesis
          by (simp add: debounced_def)
      qed
      with A have "sorted_wrt (debounced ?gap) (shot_out cc')"
        by (simp add: o' sorted_wrt_append)
      moreover have "snd p \<le> last_shot_timestamp calc'" if "p \<in> set (shot_out cc')" "fst p" for p
        using that True ls f(1) o' by (auto simp: less_imp_le)
      then have "\<forall>p \<in> set (shot_out cc'). fst p \<longrightarrow> snd p \<le> last_shot_timestamp calc'"
        by blast
      moreover have "\<forall>p \<in> set (shot_out cc'). fst p \<longrightarrow> snd p \<le> hi"
        using D f o' by auto
      ultimately show ?thesis
        using buff E o' by (simp add: shot_inv_def)
    next
      case False
      with o have o': "shot_out cc' = shot_out cc @
          (if output_shot_boundary_only_on_change opts then [] else [(False, ?ts0)])"
        by (auto simp: Transmit_out)
      have "sorted_wrt (debounced ?gap) (shot_out cc')"
        using A by (simp add: o' sorted_wrt_append debounced_def)
      moreover have old: "\<forall>p \<in> set (shot_out cc'). fst p \<longrightarrow> p \<in> set (shot_out cc)"
        using o' by auto
      have "snd p \<le> last_shot_timestamp calc'" if "p \<in> set (shot_out cc)" "fst p" for p
        using that B f(1) ls by (cases b) (auto simp: less_imp_le)
      with old have "\<forall>p \<in> set (shot_out cc'). fst p \<longrightarrow> snd p \<le> last_shot_timestamp calc'"
        by blast
      moreover have "\<forall>p \<in> set (shot_out cc'). fst p \<longrightarrow> snd p \<le> hi"
        using D old by blast
      ultimately show ?thesis
        using buff E o' by (simp add: shot_inv_def)
    qed
  qed
qed

lemma Process_shot_inv:
  assumes "Process opts inp (calc, cc) = Inr (calc', cc')"
    and "shot_inv opts hi (calc, cc)" and "hi < in_timestamp inp"
  shows "shot_inv opts (in_timestamp inp) (calc', cc')"
proof -
  from assms(1) obtain w h where v: "in_video inp = Some (w, h)"
    by (cases "in_video inp") (auto simp: Process_def)
  define calc1 where "calc1 = (if frame_width calc < 0 then calc\<lparr>frame_width := w, frame_height := h\<rparr>
                        else calc)"
  define signal where "signal = (case (in_landmarks inp, in_detections inp) of
                           (Some ls, Some ds) \<Rightarrow>
                             \<lparr>landmark_lists = ls, detections = ds, timestamp = in_timestamp inp\<rparr>
                         | _ \<Rightarrow>
                             \<lparr>landmark_lists = [], detections = [], timestamp = in_timestamp inp\<rparr>)"
  define calc2 where "calc2 = calc1\<lparr>signal_buff := signal_buff calc1 @ [signal]\<rparr>"
  have ts: "timestamp signal = in_timestamp inp"
    by (simp add: signal_def split: option.splits)
  have c2: "signal_buff calc2 = signal_buff calc @ [signal]"
    "last_shot_timestamp calc2 = last_shot_timestamp calc"
    by (simp_all add: calc2_def calc1_def)
  from assms(2,3) have inv2: "shot_inv opts (in_timestamp inp) (calc2, cc)"
    by (auto simp: shot_inv_def c2 ts)
  from v have "Process opts inp (calc, cc) =
      (if signal_buff calc2 \<noteq> [] \<and>
          min_speaker_span opts \<le> in_timestamp inp - timestamp (signal_buff calc2 ! 0)
       then ProcessScene opts calc2 cc else Inr (calc2, cc))"
    by (simp add: Process_def Let_def calc2_def calc1_def signal_def)
  with assms(1) have "ProcessScene opts calc2 cc = Inr (calc', cc') \<or> (calc', cc') = (calc2, cc)"
    by (auto split: if_splits)
  then show ?thesis
  proof
    assume "ProcessScene opts calc2 cc = Inr (calc', cc')"
    from ProcessScene_shot_inv[OF this inv2] show ?thesis .
  next
    assume "(calc', cc') = (calc2, cc)"
    with inv2 show ?thesis by simp
  qed
qed

lemma run_Process_shot_inv:
  assumes "run_Process opts inps s = Inr s'"
    and "shot_inv opts hi s"
    and "sorted_wrt (<) (map in_timestamp inps)"
    and "\<forall>inp \<in> set inps. hi < in_timestamp inp"
  shows "\<exists>hi'. shot_inv opts hi' s'"
  using assms
proof (induction inps arbitrary: s hi)
  case Nil
  then show ?case by auto
next
  case (Cons inp rest)
  from Cons.prems(1) obtain s1 where
    step: "Process opts inp s = Inr s1" and run: "run_Process opts rest s1 = Inr s'"
    by (auto simp: bind_err_Inr)
  obtain calc cc where s: "s = (calc, cc)" by (cases s)
  obtain calc1 cc1 where s1: "s1 = (calc1, cc1)" by (cases s1)
  from Cons.prems(4) have "hi < in_timestamp inp"
    by simp
  from Process_shot_inv[OF step[unfolded s s1] Cons.prems(2)[unfolded s] this]
  have inv1: "shot_inv opts (in_timestamp inp) s1"
    by (simp add: s1)
  from Cons.prems(3) have "sorted_wrt (<) (map in_timestamp rest)"
    and "\<forall>x \<in> set rest. in_timestamp inp < in_timestamp x"
    by simp_all
  from Cons.IH[OF run inv1 this] show ?case .
qed

lemma Close_shot_inv:
  assumes "Close opts s = Inr s'" and "shot_inv opts hi s"
  shows "shot_inv opts hi s'"
proof -
  obtain calc cc where s: "s = (calc, cc)" by (cases s)
  from assms(1) s obtain calc1 cc1 where
    ps: "ProcessScene opts calc cc = Inr (calc1, cc1) \<or> (calc1, cc1) = (calc, cc)"
    and s': "s' = (calc1\<lparr>pre_dominate_speaker_detection := [], face_statistics := Map.empty,
                      meta_face_indices := []\<rparr>, cc1)"
    by (auto simp: Close_def bind_err_Inr split: if_splits)
  from ps have "shot_inv opts hi (calc1, cc1)"
  proof
    assume "ProcessScene opts calc cc = Inr (calc1, cc1)"
    from ProcessScene_shot_inv[OF this assms(2)[unfolded s]] show ?thesis .
  next
    assume "(calc1, cc1) = (calc, cc)"
    with assms(2) s show ?thesis by simp
  qed
  with s' show ?thesis
    by (simp add: shot_inv_def)
qed

text \<open>
  Claim C7. A run of the graph is \<^verbatim>\<open>Open\<close>, \<^verbatim>\<open>Process\<close> on each input and \<^verbatim>\<open>Close\<close>;
  the framework delivers the inputs in strictly increasing timestamp order. In every run
  that completes, any two \<open>True\<close> packets of the shot stream are in timestamp order and
  not less than \<open>min_shot_span\<close> apart, so of two change decisions closer than that at
  most one is emitted as \<open>True\<close>; no \<open>False\<close> packet is emitted when
  \<open>output_shot_boundary_only_on_change\<close> is set; and \<^verbatim>\<open>Transmit\<close> called with a \<open>True\<close>
  decision less than \<open>min_shot_span\<close> after the last-shot timestamp adds no \<open>True\<close>
  packet (it adds \<open>False\<close>, or nothing when only changes are signalled).
\<close>

theorem shot_changes_debounced:
  assumes "run_graph opts shot_tag inps = Inr (calc, cc)"
    and "sorted_wrt (<) (map in_timestamp inps)"
  shows "(\<forall>i j. i < j \<and> j < length (shot_out cc)
            \<and> fst (shot_out cc ! i) \<and> fst (shot_out cc ! j) \<longrightarrow>
              snd (shot_out cc ! i) < snd (shot_out cc ! j)
              \<and> \<not> fless (Seconds (snd (shot_out cc ! j) - snd (shot_out cc ! i)))
                     (min_shot_span opts))
     \<and> (output_shot_boundary_only_on_change opts \<longrightarrow> (\<forall>p \<in> set (shot_out cc). fst p))
     \<and> (\<forall>c k ts. fless (Seconds (ts - last_shot_timestamp c)) (min_shot_span opts) \<longrightarrow>
            shot_out (Transmit opts c k True ts) = shot_out k @
              (if output_shot_boundary_only_on_change opts then [] else [(False, ts)]))"
proof -
  let ?start = "(Open_calc, \<lparr>has_shot_tag = shot_tag, shot_out = [], roi_out = []\<rparr>)"
  from assms(1) obtain s1 where
    run: "run_Process opts inps ?start = Inr s1" and close: "Close opts s1 = Inr (calc, cc)"
    by (auto simp: run_graph_def bind_err_Inr)
  define hi where "hi = (case inps of [] \<Rightarrow> 0 | inp # _ \<Rightarrow> in_timestamp inp - 1)"
  have start: "shot_inv opts hi ?start"
    by (simp add: shot_inv_def Open_calc_def)
  have "\<forall>inp \<in> set inps. hi < in_timestamp inp"
    using assms(2) by (cases inps) (auto simp: hi_def)
  from run_Process_shot_inv[OF run start assms(2) this] obtain hi' where "shot_inv opts hi' s1"
    by blast
  from Close_shot_inv[OF close this] have
    A: "sorted_wrt (debounced (min_shot_span opts)) (shot_out cc)"
    and E: "output_shot_boundary_only_on_change opts \<longrightarrow> (\<forall>p \<in> set (shot_out cc). fst p)"
    by (simp_all add: shot_inv_def)
  from A have "\<forall>i j. i < j \<and> j < length (shot_out cc)
            \<and> fst (shot_out cc ! i) \<and> fst (shot_out cc ! j) \<longrightarrow>
              snd (shot_out cc ! i) < snd (shot_out cc ! j)
              \<and> \<not> fless (Seconds (snd (shot_out cc ! j) - snd (shot_out cc ! i)))
                     (min_shot_span opts)"
    by (simp add: sorted_wrt_iff_nth_less debounced_def)
  with E show ?thesis
    by (simp add: Transmit_out)
qed

subsection \<open>A run of three windows\<close>

lemma GetIOU_demo_same_unit: "GetIOU (demo_box x y 1 1) (demo_box x y 1 1) = Fin 1"
  by (simp add: geometry_defs demo_box_def fsub_def Let_def)

lemma frames_loop_one_box_window:
  assumes "n = 2" "frame_width c = 1" "frame_height c = 1" "face_bbox c = []"
    "speaker_mean c = Fin 0" "speaker_variance c = Fin 0"
  shows "frames_loop demo_opts n 0
           [demo_frame t1 (demo_box x y 1 1), demo_frame t2 (demo_box x y 1 1)] (c, scene_start) =
         Inr (c\<lparr>face_bbox := [demo_box x y 1 1], face_statistics := [0 \<mapsto> [Fin 3]],
                 meta_face_indices := [0]\<rparr>,
              \<lparr>meta_faces = [0 \<mapsto> [Some 0, Some 0]], meta_face_count = 1,
               num_of_active_speaker = [(0, 2)]\<rparr>)"
  using assms
  by (simp add: process_frame_def process_face_def demo_opts_def
  scene_start_def MatchFace_def bind_err_def vec_at_def vec_set_def map_insert_def map_get_def
  IsActiveSpeaker_def mean_short_of_def variance_of_def mean_of_def float_of_nat_def fpow2_def
  fsub_def sum_from_eq trim_history_eq count_speaker_def Let_def demo_frame_def
  GetStatistics_one_face GetIOU_demo_same_unit replicate_two)

lemma ProcessScene_first_window:
  "ProcessScene demo_opts
     (demo_calc\<lparr>signal_buff := [demo_frame 3000000 (demo_box 0 0 1 1),
                                 demo_frame 3000002 (demo_box 0 0 1 1)]\<rparr>) demo_cc =
     Inr (demo_calc\<lparr>last_shot_timestamp := 3000000, pre_dominate_speaker_id := Some 0,
                     pre_dominate_speaker_detection := [demo_box 0 0 1 1]\<rparr>,
          \<lparr>has_shot_tag = True, shot_out = [(True, 3000000)],
           roi_out = [([demo_box 0 0 1 1], 3000000), ([demo_box 0 0 1 1], 3000002)]\<rparr>)"
  apply (simp add: ProcessScene_def scene_start_def[symmetric] frames_loop_one_box_window
      demo_calc_def Open_calc_def del: frames_loop.simps)
  apply (simp add: bind_err_def map_get_def shot_signal_def
      Transmit_def Seconds_def vec_at_def vec_set_def clear_window_def demo_cc_def demo_frame_def
      demo_opts_def Let_def)
  done

lemma ProcessScene_second_window:
  "ProcessScene demo_opts
     (demo_calc\<lparr>last_shot_timestamp := 3000000, pre_dominate_speaker_id := Some 0,
                pre_dominate_speaker_detection := [demo_box 0 0 1 1],
                signal_buff := [demo_frame 4000000 (demo_box 5 5 1 1),
                                demo_frame 4000002 (demo_box 5 5 1 1)]\<rparr>)
     \<lparr>has_shot_tag = True, shot_out = [(True, 3000000)],
           roi_out = [([demo_box 0 0 1 1], 3000000), ([demo_box 0 0 1 1], 3000002)]\<rparr> =
     Inr (demo_calc\<lparr>last_shot_timestamp := 4000000, pre_dominate_speaker_id := Some 0,
                     pre_dominate_speaker_detection := [demo_box 5 5 1 1]\<rparr>,
          \<lparr>has_shot_tag = True, shot_out = [(True, 3000000), (False, 4000000)],
           roi_out = [([demo_box 0 0 1 1], 3000000), ([demo_box 0 0 1 1], 3000002),
                      ([demo_box 5 5 1 1], 4000000), ([demo_box 5 5 1 1], 4000002)]\<rparr>)"
  apply (simp add: ProcessScene_def scene_start_def[symmetric] frames_loop_one_box_window
      demo_calc_def Open_calc_def del: frames_loop.simps)
  apply (simp add: bind_err_def map_get_def shot_signal_def GetIOU_demo_far
      Transmit_def Seconds_def vec_at_def vec_set_def clear_window_def demo_frame_def
      demo_opts_def Let_def)
  done

lemma GetIOU_demo_far_back: "GetIOU (demo_box 5 5 1 1) (demo_box 0 0 1 1) = Fin 0"
  by (simp add: geometry_defs demo_box_def fsub_def Let_def)

lemma ProcessScene_third_window:
  "ProcessScene demo_opts
     (demo_calc\<lparr>last_shot_timestamp := 4000000, pre_dominate_speaker_id := Some 0,
                pre_dominate_speaker_detection := [demo_box 5 5 1 1],
                signal_buff := [demo_frame 6000000 (demo_box 0 0 1 1),
                                demo_frame 6000002 (demo_box 0 0 1 1)]\<rparr>)
     \<lparr>has_shot_tag = True, shot_out = [(True, 3000000), (False, 4000000)],
           roi_out = [([demo_box 0 0 1 1], 3000000), ([demo_box 0 0 1 1], 3000002),
                      ([demo_box 5 5 1 1], 4000000), ([demo_box 5 5 1 1], 4000002)]\<rparr> =
     Inr (demo_calc\<lparr>last_shot_timestamp := 6000000, pre_dominate_speaker_id := Some 0,
                     pre_dominate_speaker_detection := [demo_box 0 0 1 1]\<rparr>,
          \<lparr>has_shot_tag = True, shot_out = [(True, 3000000), (False, 4000000), (True, 6000000)],
           roi_out = [([demo_box 0 0 1 1], 3000000), ([demo_box 0 0 1 1], 3000002),
                      ([demo_box 5 5 1 1], 4000000), ([demo_box 5 5 1 1], 4000002),
                      ([demo_box 0 0 1 1], 6000000), ([demo_box 0 0 1 1], 6000002)]\<rparr>)"
  apply (simp add: ProcessScene_def scene_start_def[symmetric] frames_loop_one_box_window
      demo_calc_def Open_calc_def del: frames_loop.simps)
  apply (simp add: bind_err_def map_get_def shot_signal_def GetIOU_demo_far_back
      Transmit_def Seconds_def vec_at_def vec_set_def clear_window_def demo_frame_def
      demo_opts_def Let_def)
  done

lemma run_graph_three_windows:
  "run_graph demo_opts True
     [demo_input 3000000 (demo_box 0 0 1 1), demo_input 3000002 (demo_box 0 0 1 1),
      demo_input 4000000 (demo_box 5 5 1 1), demo_input 4000002 (demo_box 5 5 1 1),
      demo_input 6000000 (demo_box 0 0 1 1), demo_input 6000002 (demo_box 0 0 1 1)] =
     Inr (demo_calc\<lparr>last_shot_timestamp := 6000000, pre_dominate_speaker_id := Some 0\<rparr>,
          \<lparr>has_shot_tag = True, shot_out = [(True, 3000000), (False, 4000000), (True, 6000000)],
           roi_out = [([demo_box 0 0 1 1], 3000000), ([demo_box 0 0 1 1], 3000002),
                      ([demo_box 5 5 1 1], 4000000), ([demo_box 5 5 1 1], 4000002),
                      ([demo_box 0 0 1 1], 6000000), ([demo_box 0 0 1 1], 6000002)]\<rparr>)"
proof -
  let ?cc0 = "\<lparr>has_shot_tag = True, shot_out = [], roi_out = []\<rparr>"
  let ?cc2 = "\<lparr>has_shot_tag = True, shot_out = [(True, 3000000)],
           roi_out = [([demo_box 0 0 1 1], 3000000), ([demo_box 0 0 1 1], 3000002)]\<rparr>"
  let ?cc4 = "\<lparr>has_shot_tag = True, shot_out = [(True, 3000000), (False, 4000000)],
           roi_out = [([demo_box 0 0 1 1], 3000000), ([demo_box 0 0 1 1], 3000002),
                      ([demo_box 5 5 1 1], 4000000), ([demo_box 5 5 1 1], 4000002)]\<rparr>"
  let ?C2 = "demo_calc\<lparr>last_shot_timestamp := 3000000, pre_dominate_speaker_id := Some 0,
                     pre_dominate_speaker_detection := [demo_box 0 0 1 1]\<rparr>"
  let ?C4 = "demo_calc\<lparr>last_shot_timestamp := 4000000, pre_dominate_speaker_id := Some 0,
                     pre_dominate_speaker_detection := [demo_box 5 5 1 1]\<rparr>"
  note defs = Process_def demo_input_def demo_calc_def Open_calc_def demo_frame_def demo_opts_def
  have p1: "Process demo_opts (demo_input 3000000 (demo_box 0 0 1 1)) (Open_calc, ?cc0) =
      Inr (demo_calc\<lparr>signal_buff := [demo_frame 3000000 (demo_box 0 0 1 1)]\<rparr>, ?cc0)"
    by (simp add: defs)
  have p2: "Process demo_opts (demo_input 3000002 (demo_box 0 0 1 1))
      (demo_calc\<lparr>signal_buff := [demo_frame 3000000 (demo_box 0 0 1 1)]\<rparr>, ?cc0) = Inr (?C2, ?cc2)"
    using ProcessScene_first_window by (simp add: defs demo_cc_def)
  have p3: "Process demo_opts (demo_input 4000000 (demo_box 5 5 1 1)) (?C2, ?cc2) =
      Inr (?C2\<lparr>signal_buff := [demo_frame 4000000 (demo_box 5 5 1 1)]\<rparr>, ?cc2)"
    by (simp add: defs)
  have p4: "Process demo_opts (demo_input 4000002 (demo_box 5 5 1 1))
      (?C2\<lparr>signal_buff := [demo_frame 4000000 (demo_box 5 5 1 1)]\<rparr>, ?cc2) = Inr (?C4, ?cc4)"
    using ProcessScene_second_window by (simp add: defs)
  have p5: "Process demo_opts (demo_input 6000000 (demo_box 0 0 1 1)) (?C4, ?cc4) =
      Inr (?C4\<lparr>signal_buff := [demo_frame 6000000 (demo_box 0 0 1 1)]\<rparr>, ?cc4)"
    by (simp add: defs)
  have p6: "Process demo_opts (demo_input 6000002 (demo_box 0 0 1 1))
      (?C4\<lparr>signal_buff := [demo_frame 6000000 (demo_box 0 0 1 1)]\<rparr>, ?cc4) =
      Inr (demo_calc\<lparr>last_shot_timestamp := 6000000, pre_dominate_speaker_id := Some 0,
                     pre_dominate_speaker_detection := [demo_box 0 0 1 1]\<rparr>,
          \<lparr>has_shot_tag = True, shot_out = [(True, 3000000), (False, 4000000), (True, 6000000)],
           roi_out = [([demo_box 0 0 1 1], 3000000), ([demo_box 0 0 1 1], 3000002),
                      ([demo_box 5 5 1 1], 4000000), ([demo_box 5 5 1 1], 4000002),
                      ([demo_box 0 0 1 1], 6000000), ([demo_box 0 0 1 1], 6000002)]\<rparr>)"
    using ProcessScene_third_window by (simp add: defs)
  show ?thesis
    by (simp add: run_graph_def p1 p2 p3 p4 p5 p6 bind_err_def Close_def)
      (simp add: demo_calc_def Open_calc_def)
qed

theorem shot_changes_debounced_witness:
  "run_graph demo_opts True
     [demo_input 3000000 (demo_box 0 0 1 1), demo_input 3000002 (demo_box 0 0 1 1),
      demo_input 4000000 (demo_box 5 5 1 1), demo_input 4000002 (demo_box 5 5 1 1),
      demo_input 6000000 (demo_box 0 0 1 1), demo_input 6000002 (demo_box 0 0 1 1)] =
     Inr (demo_calc\<lparr>last_shot_timestamp := 6000000, pre_dominate_speaker_id := Some 0\<rparr>,
          \<lparr>has_shot_tag = True, shot_out = [(True, 3000000), (False, 4000000), (True, 6000000)],
           roi_out = [([demo_box 0 0 1 1], 3000000), ([demo_box 0 0 1 1], 3000002),
                      ([demo_box 5 5 1 1], 4000000), ([demo_box 5 5 1 1], 4000002),
                      ([demo_box 0 0 1 1], 6000000), ([demo_box 0 0 1 1], 6000002)]\<rparr>)
   \<and> sorted_wrt (<) (map in_timestamp
        [demo_input 3000000 (demo_box 0 0 1 1), demo_input 3000002 (demo_box 0 0 1 1),
         demo_input 4000000 (demo_box 5 5 1 1), demo_input 4000002 (demo_box 5 5 1 1),
         demo_input 6000000 (demo_box 0 0 1 1), demo_input 6000002 (demo_box 0 0 1 1)])
   \<and> \<not> fless (Seconds (6000000 - 3000000)) (min_shot_span demo_opts)"
proof -
  have s: "sorted_wrt (<) (map in_timestamp
        [demo_input 3000000 (demo_box 0 0 1 1), demo_input 3000002 (demo_box 0 0 1 1),
         demo_input 4000000 (demo_box 5 5 1 1), demo_input 4000002 (demo_box 5 5 1 1),
         demo_input 6000000 (demo_box 0 0 1 1), demo_input 6000002 (demo_box 0 0 1 1)])"
    by (simp add: demo_input_def)
  have "\<not> fless (Seconds (6000000 - 3000000)) (min_shot_span demo_opts)"
    using shot_changes_debounced[OF run_graph_three_windows s, THEN conjunct1, rule_format, of 0 2]
    by simp
  with run_graph_three_windows s show ?thesis
    by simp
qed

end
